theory Spec2Isabelle
  imports Main "HOL-Library.Sublist"
begin

section \<open>Python primitives used by the runner\<close>

text \<open>
  Strings are lists of characters and are taken to be ASCII text: \<open>lower\<close>, \<open>upper\<close>,
  \<open>strip\<close> and the regular-expression classes \<open>\d\<close> and \<open>\w\<close> are modelled on
  the ASCII range. A Python \<open>dict\<close> is an association list in insertion order whose keys
  are distinct; assigning to a key replaces the value in place or appends a new entry, and
  \<open>pop\<close> removes the entry.
\<close>

type_synonym 'v dict = "(string \<times> 'v) list"

definition is_upper :: "char \<Rightarrow> bool" where
  "is_upper c = (65 \<le> (of_char c :: nat) \<and> (of_char c :: nat) \<le> 90)"

definition is_lower :: "char \<Rightarrow> bool" where
  "is_lower c = (97 \<le> (of_char c :: nat) \<and> (of_char c :: nat) \<le> 122)"

definition is_digit :: "char \<Rightarrow> bool" where
  "is_digit c = (48 \<le> (of_char c :: nat) \<and> (of_char c :: nat) \<le> 57)"

definition is_space :: "char \<Rightarrow> bool" where
  "is_space c = ((of_char c :: nat) \<in> {9, 10, 11, 12, 13, 28, 29, 30, 31, 32})"

definition lower_char :: "char \<Rightarrow> char" where
  "lower_char c = (if is_upper c then char_of ((of_char c :: nat) + 32) else c)"

definition upper_char :: "char \<Rightarrow> char" where
  "upper_char c = (if is_lower c then char_of ((of_char c :: nat) - 32) else c)"

definition lower :: "string \<Rightarrow> string" where
  "lower s = map lower_char s"

definition upper :: "string \<Rightarrow> string" where
  "upper s = map upper_char s"

definition lstrip :: "string \<Rightarrow> string" where
  "lstrip s = dropWhile is_space s"

definition rstrip :: "string \<Rightarrow> string" where
  "rstrip s = rev (dropWhile is_space (rev s))"

definition strip :: "string \<Rightarrow> string" where
  "strip s = rstrip (lstrip s)"

definition rstrip_char :: "char \<Rightarrow> string \<Rightarrow> string" where
  "rstrip_char c s = rev (dropWhile (\<lambda>x. x = c) (rev s))"

text \<open>\<open>sub in s\<close> on strings: \<open>sub\<close> occurs in \<open>s\<close> as a contiguous run.\<close>

fun py_in :: "string \<Rightarrow> string \<Rightarrow> bool" where
  "py_in sub [] = (sub = [])"
| "py_in sub (c # cs) = (prefix sub (c # cs) \<or> py_in sub cs)"

text \<open>\<open>s.split(sep)\<close> for a one-character separator.\<close>

fun split_on :: "char \<Rightarrow> string \<Rightarrow> string list" where
  "split_on sep [] = [[]]"
| "split_on sep (c # cs) =
     (if c = sep then [] # split_on sep cs
      else (case split_on sep cs of
              [] \<Rightarrow> [[c]]
            | w # ws \<Rightarrow> (c # w) # ws))"

text \<open>\<open>s.replace(old, new)\<close> for a non-empty \<open>old\<close>: left to right, without overlap.\<close>

function replace_all :: "string \<Rightarrow> string \<Rightarrow> string \<Rightarrow> string" where
  "replace_all old new s =
     (if old = [] then s
      else if s = [] then []
      else if prefix old s then new @ replace_all old new (drop (length old) s)
      else hd s # replace_all old new (tl s))"
  by pat_completeness auto
termination
  by (relation "measure (\<lambda>(old, new, s). length s)") auto

text \<open>Decimal text of a number, as \<open>str\<close> gives it for an \<open>int\<close>.\<close>

definition digit_char :: "nat \<Rightarrow> char" where
  "digit_char d = char_of (48 + d)"

function dec_nat :: "nat \<Rightarrow> string" where
  "dec_nat n = (if n < 10 then [digit_char n] else dec_nat (n div 10) @ [digit_char (n mod 10)])"
  by pat_completeness auto
termination
  by (relation "measure id") auto

definition str_int :: "int \<Rightarrow> string" where
  "str_int i = (if i < 0 then CHR ''-'' # dec_nat (nat (- i)) else dec_nat (nat i))"

text \<open>The format \<open>{idx:03d}\<close>: at least three digits, padded with zeros.\<close>

definition pad3 :: "nat \<Rightarrow> string" where
  "pad3 n = replicate (3 - length (dec_nat n)) (CHR ''0'') @ dec_nat n"

definition dict_get :: "'v dict \<Rightarrow> string \<Rightarrow> 'v option" where
  "dict_get d k = map_of d k"

fun dict_set :: "string \<Rightarrow> 'v \<Rightarrow> 'v dict \<Rightarrow> 'v dict" where
  "dict_set k v [] = [(k, v)]"
| "dict_set k v ((k', v') # d) =
     (if k' = k then (k, v) # d else (k', v') # dict_set k v d)"

definition dict_pop :: "string \<Rightarrow> 'v dict \<Rightarrow> 'v dict" where
  "dict_pop k d = filter (\<lambda>(k', _). k' \<noteq> k) d"

text \<open>\<open>{**a, **b}\<close>: the entries of \<open>a\<close>, then each entry of \<open>b\<close> assigned in order.\<close>

definition dict_merge :: "'v dict \<Rightarrow> 'v dict \<Rightarrow> 'v dict" where
  "dict_merge a b = fold (\<lambda>(k, v). dict_set k v) b a"

text \<open>\<open>d or {}\<close> for an optional dictionary.\<close>

definition or_empty :: "'v dict option \<Rightarrow> 'v dict" where
  "or_empty d = (case d of None \<Rightarrow> [] | Some x \<Rightarrow> x)"

text \<open>
  A key of a suite document whose value is a string when it is given: the key can be absent,
  or given with \<open>null\<close>. \<open>entry_get e d\<close> is \<open>doc.get(key, d)\<close>, where the result
  \<open>None\<close> is Python's \<open>None\<close>.
\<close>

datatype 'a entry = Absent | Null | Given 'a

definition entry_get :: "'a entry \<Rightarrow> 'a \<Rightarrow> 'a option" where
  "entry_get e d = (case e of Absent \<Rightarrow> Some d | Null \<Rightarrow> None | Given x \<Rightarrow> Some x)"

text \<open>
  What the runners can raise. The first six are raised by the assertion-based runner on
  purpose (assertions, \<open>pytest.skip\<close>, the transport exception it lets through); the last
  three are Python's own.
\<close>

datatype raised =
    BaseUrlMissing string
  | SkipTest "string option"
  | TransportError string
  | StatusMismatch "string option" int int
  | SchemaValidationFailed "string option"
  | ResponseValidationFailed "string option" "string list"
  | TypeError
  | AttributeError
  | ValueError

section \<open>JSON values\<close>

text \<open>
  The value \<open>json.load\<close> and \<open>resp.json()\<close> return. Numbers are the integers;
  an object is a dictionary.
\<close>

datatype json =
    JNull
  | JBool bool
  | JInt int
  | JStr string
  | JList "json list"
  | JObj "(string \<times> json) list"

text \<open>Truth value of a JSON value in a condition.\<close>

fun truthy :: "json \<Rightarrow> bool" where
  "truthy JNull = False"
| "truthy (JBool b) = b"
| "truthy (JInt i) = (i \<noteq> 0)"
| "truthy (JStr s) = (s \<noteq> [])"
| "truthy (JList xs) = (xs \<noteq> [])"
| "truthy (JObj kvs) = (kvs \<noteq> [])"

text \<open>\<open>repr\<close> of a string: quoted, with the quote, the backslash and control characters escaped.\<close>

definition hex_digit :: "nat \<Rightarrow> char" where
  "hex_digit d = (if d < 10 then char_of (48 + d) else char_of (87 + d))"

definition repr_char :: "char \<Rightarrow> char \<Rightarrow> string" where
  "repr_char q c =
     (if c = q \<or> c = CHR 0x5C then [CHR 0x5C, c]
      else if c = CHR 0x0A then [CHR 0x5C, CHR ''n'']
      else if c = CHR 0x0D then [CHR 0x5C, CHR ''r'']
      else if c = CHR 0x09 then [CHR 0x5C, CHR ''t'']
      else if (of_char c :: nat) < 32 \<or> 127 \<le> (of_char c :: nat)
        then [CHR 0x5C, CHR ''x'', hex_digit ((of_char c :: nat) div 16),
              hex_digit ((of_char c :: nat) mod 16)]
      else [c])"

definition repr_str :: "string \<Rightarrow> string" where
  "repr_str s =
     (let q = (if CHR 0x27 \<in> set s \<and> CHR 0x22 \<notin> set s then CHR 0x22 else CHR 0x27)
      in q # concat (map (repr_char q) s) @ [q])"

definition join :: "string \<Rightarrow> string list \<Rightarrow> string" where
  "join sep xs = (case xs of [] \<Rightarrow> [] | y # ys \<Rightarrow> y @ concat (map (\<lambda>z. sep @ z) ys))"

fun repr :: "json \<Rightarrow> string" where
  "repr JNull = ''None''"
| "repr (JBool b) = (if b then ''True'' else ''False'')"
| "repr (JInt i) = str_int i"
| "repr (JStr s) = repr_str s"
| "repr (JList xs) = ''['' @ join '', '' (map repr xs) @ '']''"
| "repr (JObj kvs) =
     ''{'' @ join '', '' (map (\<lambda>kv. repr_str (fst kv) @ '': '' @ repr (snd kv)) kvs) @ ''}''"

text \<open>\<open>str(v)\<close>: a string is itself, anything else is its \<open>repr\<close>.\<close>

definition str :: "json \<Rightarrow> string" where
  "str v = (case v of JStr s \<Rightarrow> s | _ \<Rightarrow> repr v)"

text \<open>
  \<open>int(k)\<close> on a string: surrounding whitespace is dropped, a sign may lead, and single
  underscores may separate digits; \<open>None\<close> stands for \<open>ValueError\<close>.
\<close>

fun digits_ok :: "string \<Rightarrow> bool" where
  "digits_ok [] = False"
| "digits_ok [c] = is_digit c"
| "digits_ok (c # d # cs) =
     (if is_digit c then (if d = CHR ''_'' then digits_ok cs else digits_ok (d # cs)) else False)"

definition digits_value :: "string \<Rightarrow> nat" where
  "digits_value s = foldl (\<lambda>acc c. acc * 10 + ((of_char c :: nat) - 48)) 0 s"

definition py_int :: "string \<Rightarrow> int option" where
  "py_int s =
     (let t = strip s;
          neg = (t \<noteq> [] \<and> hd t = CHR ''-'');
          body = (if t \<noteq> [] \<and> (hd t = CHR ''-'' \<or> hd t = CHR ''+'') then tl t else t)
      in if digits_ok body
         then Some ((if neg then - 1 else 1) * int (digits_value (filter (\<lambda>c. c \<noteq> CHR ''_'') body)))
         else None)"

text \<open>\<open>html.escape\<close> with its default \<open>quote=True\<close>.\<close>

definition escape_char :: "char \<Rightarrow> string" where
  "escape_char c =
     (if c = CHR ''&'' then ''&amp;''
      else if c = CHR ''<'' then ''&lt;''
      else if c = CHR ''>'' then ''&gt;''
      else if c = CHR 0x22 then ''&quot;''
      else if c = CHR 0x27 then ''&#x27;''
      else [c])"

definition html_escape :: "string \<Rightarrow> string" where
  "html_escape s = concat (map escape_char s)"

section \<open>The role-based runner (Role_based.py)\<close>

subsection \<open>Configuration and tokens\<close>

text \<open>
  What one call of \<open>requests.get\<close> gives: a response together with the milliseconds
  measured around the call, or a \<open>requests.RequestException\<close> with its text.
  \<open>rsp_json\<close> is \<open>None\<close> when \<open>resp.json()\<close> raises.
\<close>

record response =
  rsp_status_code :: int
  rsp_headers :: "string dict"
  rsp_json :: "json option"
  rsp_text :: string

datatype outcome = Responded response nat | RequestException string

text \<open>
  The surroundings of a run. The first five fields are the values read from the
  environment at start-up; \<open>MAX_RETRIES\<close> and \<open>RETRY_DELAY\<close> are whatever integers
  the environment gives, and \<open>ROLE_CREDENTIALS\<close> holds, for each role, the user and the password
  found in the environment, if any. The login service is \<open>login\<close>: given user and password
  it answers with the decoded reply, or with \<open>None\<close> when the call raises (connection
  failure or an error status). Python's built-in \<open>hash\<close> is \<open>py_hash\<close>: for strings
  it is keyed by a seed that the interpreter draws when the process starts, so each process
  has its own. The service under test is \<open>http_get\<close>: the outcome of the n-th call of
  \<open>requests.get\<close> in the run, counted from 0.
\<close>

record config =
  ALLOW_PARTIAL_MESSAGE_MATCH :: bool
  MAX_RETRIES :: int
  RETRY_DELAY :: int
  BASE_URL :: string
  ROLE_CREDENTIALS :: "(string option \<times> string option) dict"
  login :: "string \<Rightarrow> string \<Rightarrow> string dict option"
  py_hash :: "string option \<Rightarrow> int"
  http_get :: "nat \<Rightarrow> outcome"

definition GLOBAL_PERF_THRESHOLD_MS :: nat where
  "GLOBAL_PERF_THRESHOLD_MS = 1500"

record token_set =
  access_token :: string
  id_token :: string
  refresh_token :: string

definition no_tokens :: token_set where
  "no_tokens = \<lparr>access_token = [], id_token = [], refresh_token = []\<rparr>"

text \<open>\<open>get_tokens_from_api\<close>: empty tokens when the credentials are missing or the login fails.\<close>

definition get_tokens_from_api :: "config \<Rightarrow> string \<Rightarrow> token_set" where
  "get_tokens_from_api cfg role =
     (case dict_get (ROLE_CREDENTIALS cfg) role of
        None \<Rightarrow> no_tokens
      | Some (u, p) \<Rightarrow>
         (case (u, p) of
            (Some user, Some pass) \<Rightarrow>
              (if user = [] \<or> pass = [] then no_tokens
               else (case login cfg user pass of
                       None \<Rightarrow> no_tokens
                     | Some data \<Rightarrow>
                         \<lparr>access_token = (case dict_get data ''access_token'' of None \<Rightarrow> [] | Some t \<Rightarrow> t),
                          id_token = (case dict_get data ''id_token'' of None \<Rightarrow> [] | Some t \<Rightarrow> t),
                          refresh_token = (case dict_get data ''refresh_token'' of None \<Rightarrow> [] | Some t \<Rightarrow> t)\<rparr>))
          | _ \<Rightarrow> no_tokens))"

definition role_map :: "string dict" where
  "role_map = [(''valid_admin'', ''admin''), (''valid_aggregator'', ''aggregator''),
               (''valid_branch'', ''branch''), (''valid'', ''admin'')]"

text \<open>The tokens fetched once at start-up, one entry per key of \<open>role_map\<close>.\<close>

definition ALL_TOKENS :: "config \<Rightarrow> token_set dict" where
  "ALL_TOKENS cfg = fold (\<lambda>(key, role). dict_set key (get_tokens_from_api cfg role)) role_map []"

text \<open>
  \<open>deterministic_dummy_id_token\<close>, with the process's \<open>hash\<close> as first argument. The
  seed value is the token key, which is \<open>None\<close> when the case gives \<open>null\<close>.
\<close>

definition deterministic_dummy_id_token :: "(string option \<Rightarrow> int) \<Rightarrow> string option \<Rightarrow> string" where
  "deterministic_dummy_id_token hash seed_value =
     ''dummy-id-'' @ str_int (\<bar>hash seed_value\<bar> mod (10 ^ 12))"

subsection \<open>Redaction\<close>

definition redaction_marker :: string where
  "redaction_marker = ''***redacted***''"

definition sensitive_names :: "string list" where
  "sensitive_names = [''authorization'', ''token'', ''x-api-key'', ''x-access-token'', ''x-id-token'']"

definition redact_headers :: "string dict \<Rightarrow> string dict" where
  "redact_headers headers =
     fold (\<lambda>(k, v) redacted.
             if k \<noteq> [] \<and> lower k \<in> set sensitive_names
             then dict_set k redaction_marker redacted
             else dict_set k v redacted)
          headers []"

subsection \<open>Response validation\<close>

definition top_level_errors :: "bool \<Rightarrow> json dict \<Rightarrow> json dict \<Rightarrow> string \<Rightarrow> string list" where
  "top_level_errors partial resp_json expected_response_dict key =
     (case dict_get expected_response_dict key of
        None \<Rightarrow> []
      | Some ev \<Rightarrow>
          (let expected_value = strip (str ev);
               actual_value = strip (case dict_get resp_json key of None \<Rightarrow> [] | Some a \<Rightarrow> str a)
           in if partial
              then (if \<not> py_in (lower expected_value) (lower actual_value)
                    then [''Expected '' @ [CHR 0x27] @ key @ [CHR 0x27] @ '' to contain: ''
                            @ expected_value @ '', got: '' @ actual_value]
                    else [])
              else (if expected_value \<noteq> actual_value
                    then [''Expected '' @ [CHR 0x27] @ key @ [CHR 0x27] @ '': ''
                            @ expected_value @ '', got: '' @ actual_value]
                    else [])))"

text \<open>Whether one element of the \<open>data\<close> list carries the query content in its name.\<close>

definition item_matches :: "string \<Rightarrow> json \<Rightarrow> bool" where
  "item_matches query_content item =
     (case item of
        JObj d \<Rightarrow> py_in (lower query_content)
                    (lower (case dict_get d ''farmer_full_name'' of None \<Rightarrow> [] | Some n \<Rightarrow> str n))
      | _ \<Rightarrow> False)"

definition content_errors :: "json dict \<Rightarrow> string option \<Rightarrow> string \<Rightarrow> string list" where
  "content_errors resp_json query_content test_type =
     (case query_content of
        None \<Rightarrow> []
      | Some qc \<Rightarrow>
          (if qc \<noteq> [] \<and> test_type \<noteq> [] \<and> \<not> py_in ''authentication'' (lower test_type)
           then (case (case dict_get resp_json ''data'' of None \<Rightarrow> JList [] | Some d \<Rightarrow> d) of
                   JList data_list \<Rightarrow>
                     (if list_ex (item_matches qc) data_list then []
                      else [''Query content '' @ [CHR 0x27] @ qc @ [CHR 0x27]
                              @ '' not found in any farmer_full_name in response data''])
                 | _ \<Rightarrow> [''Response '' @ [CHR 0x27] @ ''data'' @ [CHR 0x27] @ '' is not a list''])
           else []))"

text \<open>
  The walk along a dotted path. The value \<open>None\<close> that the source assigns when a step
  fails is \<open>JNull\<close>, as \<open>val is None\<close> does not tell it from a \<open>null\<close> in the document.
\<close>

fun resolve_path :: "json \<Rightarrow> string list \<Rightarrow> json" where
  "resolve_path val [] = val"
| "resolve_path val (k # keys) =
     (case val of
        JList xs \<Rightarrow>
          (case py_int k of
             Some idx \<Rightarrow>
               (if 0 \<le> idx \<and> idx < int (length xs) then resolve_path (xs ! nat idx) keys
                else JNull)
           | None \<Rightarrow> JNull)
      | JObj d \<Rightarrow>
          (case dict_get d k of
             Some v \<Rightarrow> resolve_path v keys
           | None \<Rightarrow> JNull)
      | _ \<Rightarrow> JNull)"

definition nested_key_errors :: "bool \<Rightarrow> json \<Rightarrow> string \<times> json \<Rightarrow> string list" where
  "nested_key_errors partial resp_json entry =
     (let key_path = fst entry;
          expected_value = snd entry;
          val = resolve_path resp_json (split_on (CHR ''.'') key_path)
      in if val = JNull then [''Missing nested key: '' @ key_path]
         else (let val_str = str val
               in if partial
                  then (if \<not> py_in (lower (str expected_value)) (lower val_str)
                        then [''Nested key '' @ [CHR 0x27] @ key_path @ [CHR 0x27]
                                @ '' value mismatch: expected (partial) '' @ [CHR 0x27]
                                @ str expected_value @ [CHR 0x27] @ '', got '' @ [CHR 0x27]
                                @ val_str @ [CHR 0x27]]
                        else [])
                  else (if str expected_value \<noteq> val_str
                        then [''Nested key '' @ [CHR 0x27] @ key_path @ [CHR 0x27]
                                @ '' value mismatch: expected '' @ [CHR 0x27]
                                @ str expected_value @ [CHR 0x27] @ '', got '' @ [CHR 0x27]
                                @ val_str @ [CHR 0x27]]
                        else [])))"

text \<open>
  \<open>validate_response_simple\<close>; the global toggle \<open>ALLOW_PARTIAL_MESSAGE_MATCH\<close> is the
  first argument.
\<close>

definition validate_response_simple ::
  "bool \<Rightarrow> json \<Rightarrow> json \<Rightarrow> string option \<Rightarrow> string \<Rightarrow> json dict option \<Rightarrow> bool \<times> string list" where
  "validate_response_simple partial resp_json expected_response query_content test_type nested_keys =
     (case resp_json of
        JObj resp \<Rightarrow>
          (let expected_response_dict = (case expected_response of JObj e \<Rightarrow> e | _ \<Rightarrow> []);
               errors = concat (map (top_level_errors partial resp expected_response_dict)
                                    [''status'', ''message''])
                        @ content_errors resp query_content test_type
                        @ concat (map (nested_key_errors partial resp_json) (or_empty nested_keys))
           in (errors = [], errors))
      | _ \<Rightarrow> (False, [''Response is not a JSON object'']))"

text \<open>
  \<open>validate_headers\<close>. The headers of a response are looked up without regard to case.
\<close>

definition ci_get :: "string dict \<Rightarrow> string \<Rightarrow> string option" where
  "ci_get hs k = map_of (map (\<lambda>(k', v). (lower k', v)) hs) (lower k)"

definition header_errors :: "string dict \<Rightarrow> string \<times> string \<Rightarrow> string list" where
  "header_errors resp_headers entry =
     (let key = fst entry; expected_value = snd entry
      in case ci_get resp_headers key of
           None \<Rightarrow> [''Missing header: '' @ key]
         | Some actual_value \<Rightarrow>
             (if lower actual_value \<noteq> lower expected_value
              then [''Header '' @ [CHR 0x27] @ key @ [CHR 0x27] @ '' mismatch: expected ''
                      @ [CHR 0x27] @ expected_value @ [CHR 0x27] @ '', got '' @ [CHR 0x27]
                      @ actual_value @ [CHR 0x27]]
              else []))"

definition validate_headers :: "string dict \<Rightarrow> string dict \<Rightarrow> bool \<times> string list" where
  "validate_headers resp_headers expected_headers =
     (let errors = concat (map (header_errors resp_headers) expected_headers)
      in (errors = [], errors))"

subsection \<open>Suite files, cases and results\<close>

text \<open>
  A test case as the suite document gives it. The fields have the types of the data model:
  names, texts and header values are strings, \<open>expected_status\<close> is an integer. The keys
  that the runners read with a default and then use as a string are entries, so that
  \<open>null\<close> is told from the absent key. For the other keys \<open>None\<close> is the absent key
  or \<open>null\<close>: the role-based runner reads them with \<open>or\<close> or only tests them, which
  makes the two the same, and the assertion-based runner is modelled on documents that give
  these keys no \<open>null\<close>.
\<close>

record test_case =
  tc_test_id :: "string entry"
  tc_description :: "string entry"
  tc_type :: "string option"
  tc_method :: "string entry"
  tc_endpoint :: "string option"
  tc_api_endpoint :: "string option"
  tc_headers :: "string dict option"
  tc_query_params :: "string dict option"
  tc_path_params :: "json dict option"
  tc_auth_token :: "string entry"
  tc_expected_status :: "int option"
  tc_expected_response :: "json option"
  tc_expected_response_options :: "json option"
  tc_nested_keys :: "json dict option"
  tc_expected_content_type :: "string entry"
  tc_body :: "json option"
  tc_request_body :: "json option"
  tc_payload :: "json option"

record suite =
  sf_base_url :: "string entry"
  sf_method :: "string entry"
  sf_headers :: "string dict option"
  sf_tokens :: "string dict option"
  sf_test_cases :: "test_case list option"

text \<open>A discovered file: its stem and its content, \<open>None\<close> when \<open>json.load\<close> raises.\<close>

record json_file =
  stem :: string
  content :: "suite option"

datatype verdict = PASS | FAIL | SKIPPED

datatype code = Code int | Dash | ERROR

datatype body = JsonBody json | RawBody string

text \<open>
  The details of a case that got a response are kept as the values that the template of
  \<open>details_html\<close> interpolates, in the order of the template; the details of the other
  cases are the text itself.
\<close>

record exchange =
  x_test_id :: "string option"
  x_desc :: "string option"
  x_method :: string
  x_url :: string
  x_headers :: "string dict"
  x_request_display :: "string dict option"
  x_status :: int
  x_elapsed_ms :: nat
  x_slow :: bool
  x_body :: body
  x_errors :: "string list"
  x_passed :: bool

datatype details = Text string | Exchange exchange

record result =
  r_id :: "string option"
  r_desc :: "string option"
  r_status_code :: code
  r_result :: verdict
  r_details :: details
  r_api_name :: string
  r_method :: string
  r_endpoint :: "string option"

datatype event =
    HttpGet string "string dict" "string dict"
  | HttpRequest string string "string dict" "json option"
  | Sleep int

text \<open>
  The globals \<open>SUMMARY\<close> and \<open>PERF_STATS\<close>, with the number of calls of
  \<open>requests.get\<close> made so far and the sequence of calls and sleeps. \<open>uncaught\<close> is
  the exception that has left \<open>run_all_tests\<close>, if one has: the run ends where it is
  raised, with the globals as they are at that moment.
\<close>

record run_state =
  total :: nat
  passed :: nat
  failed :: nat
  skipped :: nat
  results :: "result list"
  slow_tests :: "string option list"
  PERF_STATS :: "nat list"
  calls :: nat
  trace :: "event list"
  uncaught :: "raised option"

definition initial_state :: run_state where
  "initial_state = \<lparr>total = 0, passed = 0, failed = 0, skipped = 0, results = [],
     slow_tests = [], PERF_STATS = [], calls = 0, trace = [], uncaught = None\<rparr>"

text \<open>The request of a case once its URL and headers are resolved.\<close>

record request =
  rq_test_id :: "string option"
  rq_desc :: "string option"
  rq_method :: string
  rq_endpoint :: string
  rq_url :: string
  rq_headers :: "string dict"
  rq_params :: "string dict"

text \<open>\<open>a or b\<close> on optional strings and on optional JSON values.\<close>

definition or_str :: "string option \<Rightarrow> string option \<Rightarrow> string option" where
  "or_str a b = (case a of Some x \<Rightarrow> (if x \<noteq> [] then a else b) | None \<Rightarrow> b)"

definition or_json :: "json option \<Rightarrow> json option \<Rightarrow> json option" where
  "or_json a b = (case a of Some x \<Rightarrow> (if truthy x then a else b) | None \<Rightarrow> b)"

definition get_or :: "'a option \<Rightarrow> 'a \<Rightarrow> 'a" where
  "get_or a d = (case a of None \<Rightarrow> d | Some x \<Rightarrow> x)"

text \<open>The names found by \<open>re.findall(r"\{(\w+)\}", endpoint)\<close>.\<close>

definition is_word :: "char \<Rightarrow> bool" where
  "is_word c = (is_upper c \<or> is_lower c \<or> is_digit c \<or> c = CHR ''_'')"

function placeholders :: "string \<Rightarrow> string list" where
  "placeholders s =
     (case s of
        [] \<Rightarrow> []
      | c # cs \<Rightarrow>
          (let w = takeWhile is_word cs; rest = dropWhile is_word cs
           in if c = CHR ''{'' \<and> w \<noteq> [] \<and> rest \<noteq> [] \<and> hd rest = CHR ''}''
              then w # placeholders (tl rest)
              else placeholders cs))"
  by pat_completeness auto
termination
  by (relation "measure length") (auto simp: length_dropWhile_le less_Suc_eq_le le_trans[OF diff_le_self])

definition substitute_path_params :: "json dict \<Rightarrow> string \<Rightarrow> string" where
  "substitute_path_params path_params endpoint =
     fold (\<lambda>ph e. case dict_get path_params ph of
                     Some v \<Rightarrow> replace_all (''{'' @ ph @ ''}'') (str v) e
                   | None \<Rightarrow> e)
          (placeholders endpoint) endpoint"

text \<open>The headers of the request: the merge and the token logic of \<open>run_all_tests\<close>.\<close>

definition request_headers :: "config \<Rightarrow> string dict \<Rightarrow> string dict \<Rightarrow> test_case \<Rightarrow> string dict" where
  "request_headers cfg file_headers tokens_dict c =
     (let headers = dict_set ''Accept'' ''application/json''
                      (dict_merge file_headers (or_empty (tc_headers c)));
          token_key = entry_get (tc_auth_token c) ''valid''
      in case (case token_key of Some k \<Rightarrow> dict_get (ALL_TOKENS cfg) k | None \<Rightarrow> None) of
           Some TOKENS \<Rightarrow>
             dict_set ''X-ID-Token'' (id_token TOKENS)
               (dict_set ''Authorization'' (''Bearer '' @ access_token TOKENS) headers)
         | None \<Rightarrow>
             (if token_key = Some ''empty''
              then dict_pop ''X-ID-Token'' (dict_pop ''Authorization'' headers)
              else dict_set ''X-ID-Token'' (deterministic_dummy_id_token (py_hash cfg) token_key)
                     (dict_set ''Authorization''
                        (''Bearer '' @ (case token_key of
                                          Some k \<Rightarrow> get_or (dict_get tokens_dict k) []
                                        | None \<Rightarrow> []))
                        headers)))"

subsection \<open>One case\<close>

text \<open>
  The body of the \<open>try\<close> once \<open>requests.get\<close> has returned: the errors of the
  validation, in the order in which they are appended. The test of the content type is the
  one place that can raise: \<open>ct_expected not in resp.headers.get("Content-Type")\<close> is a
  \<open>TypeError\<close> when the case gives \<open>null\<close> for \<open>expected_content_type\<close>.
\<close>

definition response_errors ::
  "config \<Rightarrow> string dict \<Rightarrow> test_case \<Rightarrow> request \<Rightarrow> response \<Rightarrow> raised + string list" where
  "response_errors cfg file_headers c rq resp =
     (let resp_json = (case rsp_json resp of Some j \<Rightarrow> j | None \<Rightarrow> JObj []);
          status_errors =
            (case tc_expected_status c of
               Some expected_status \<Rightarrow>
                 (if expected_status \<noteq> 0 \<and> rsp_status_code resp \<noteq> expected_status
                  then [''Expected '' @ str_int expected_status @ '', got ''
                          @ str_int (rsp_status_code resp)]
                  else [])
             | None \<Rightarrow> []);
          expected_resp = or_json (tc_expected_response c) (tc_expected_response_options c);
          given = (case expected_resp of Some e \<Rightarrow> truthy e | None \<Rightarrow> False);
          query_content = dict_get (rq_params rq) ''content'';
          nested_keys = tc_nested_keys c;
          body_errors =
            (if given \<or> or_empty nested_keys \<noteq> []
             then snd (validate_response_simple (ALLOW_PARTIAL_MESSAGE_MATCH cfg) resp_json
                         (if given then get_or expected_resp (JObj []) else JObj [])
                         query_content (get_or (tc_type c) []) nested_keys)
             else []);
          header_errors = snd (validate_headers (rsp_headers resp) file_headers);
          ct_expected = entry_get (tc_expected_content_type c) ''application/json'';
          content_type = get_or (ci_get (rsp_headers resp) ''Content-Type'') []
      in if content_type = [] then Inr (status_errors @ body_errors @ header_errors)
         else (case ct_expected of
                 None \<Rightarrow> Inl TypeError
               | Some ct \<Rightarrow>
                   Inr (status_errors @ body_errors @ header_errors @
                        (if \<not> py_in ct content_type
                         then [''Expected Content-Type '' @ [CHR 0x27] @ ct @ [CHR 0x27]
                                 @ '', got '' @ [CHR 0x27] @ content_type @ [CHR 0x27]]
                         else []))))"

text \<open>
  \<open>test_passed\<close> is cleared exactly where an error is appended, and both validators
  return a verdict that is true exactly when their list is empty.
\<close>

definition details_html :: "request \<Rightarrow> response \<Rightarrow> nat \<Rightarrow> string list \<Rightarrow> details" where
  "details_html rq resp elapsed_ms errors =
     Exchange \<lparr>
       x_test_id = rq_test_id rq,
       x_desc = rq_desc rq,
       x_method = rq_method rq,
       x_url = rq_url rq,
       x_headers = redact_headers (rq_headers rq),
       x_request_display = (if rq_params rq \<noteq> [] then Some (rq_params rq) else None),
       x_status = rsp_status_code resp,
       x_elapsed_ms = elapsed_ms,
       x_slow = (elapsed_ms > GLOBAL_PERF_THRESHOLD_MS),
       x_body = (case rsp_json resp of Some j \<Rightarrow> JsonBody j | None \<Rightarrow> RawBody (rsp_text resp)),
       x_errors = errors,
       x_passed = (errors = [])\<rparr>"

text \<open>
  The sample is appended as soon as the call has returned; an exception of the validation
  leaves the run after that, before anything is recorded.
\<close>

definition handle_response ::
  "config \<Rightarrow> string dict \<Rightarrow> test_case \<Rightarrow> request \<Rightarrow> response \<Rightarrow> nat \<Rightarrow> run_state \<Rightarrow> run_state" where
  "handle_response cfg file_headers c rq resp elapsed_ms st =
     (let timed = st\<lparr>PERF_STATS := PERF_STATS st @ [elapsed_ms]\<rparr>
      in case response_errors cfg file_headers c rq resp of
           Inl e \<Rightarrow> timed\<lparr>uncaught := Some e\<rparr>
         | Inr errors \<Rightarrow>
             (let test_passed = (errors = [])
              in timed\<lparr>
                   results := results timed @
                     [\<lparr>r_id = rq_test_id rq, r_desc = rq_desc rq,
                       r_status_code = Code (rsp_status_code resp),
                       r_result = (if test_passed then PASS else FAIL),
                       r_details = details_html rq resp elapsed_ms errors,
                       r_api_name = rq_method rq @ '' '' @ rq_endpoint rq,
                       r_method = rq_method rq, r_endpoint = Some (rq_endpoint rq)\<rparr>],
                   slow_tests := (if elapsed_ms > GLOBAL_PERF_THRESHOLD_MS
                                  then slow_tests timed @ [rq_test_id rq] else slow_tests timed),
                   passed := (if test_passed then passed timed + 1 else passed timed),
                   failed := (if test_passed then failed timed else failed timed + 1)\<rparr>))"

definition record_exhausted :: "request \<Rightarrow> string \<Rightarrow> run_state \<Rightarrow> run_state" where
  "record_exhausted rq e st =
     st\<lparr>failed := failed st + 1,
        results := results st @
          [\<lparr>r_id = rq_test_id rq, r_desc = rq_desc rq, r_status_code = ERROR,
            r_result = FAIL,
            r_details = Text (''<pre>Exception: '' @ html_escape e @ ''</pre>''),
            r_api_name = rq_method rq @ '' '' @ rq_endpoint rq,
            r_method = rq_method rq, r_endpoint = Some (rq_endpoint rq)\<rparr>]\<rparr>"

text \<open>
  The loop \<open>while attempt <= MAX_RETRIES\<close>. A response ends it (\<open>break\<close>, or the
  exception of the validation); a transport exception raises \<open>attempt\<close>, then records
  the failure when the bound is passed and sleeps otherwise. \<open>time.sleep\<close> raises
  \<open>ValueError\<close> on a negative delay; raised inside the handler, it leaves the run.
\<close>

function request_loop ::
  "config \<Rightarrow> string dict \<Rightarrow> test_case \<Rightarrow> request \<Rightarrow> int \<Rightarrow> run_state \<Rightarrow> run_state" where
  "request_loop cfg file_headers c rq attempt st =
     (if attempt \<le> MAX_RETRIES cfg
      then (let sent = st\<lparr>calls := calls st + 1,
                           trace := trace st @ [HttpGet (rq_url rq) (rq_headers rq) (rq_params rq)]\<rparr>
            in case http_get cfg (calls st) of
                 Responded resp elapsed_ms \<Rightarrow>
                   handle_response cfg file_headers c rq resp elapsed_ms sent
               | RequestException e \<Rightarrow>
                   (if attempt + 1 > MAX_RETRIES cfg
                    then request_loop cfg file_headers c rq (attempt + 1) (record_exhausted rq e sent)
                    else if RETRY_DELAY cfg < 0
                    then sent\<lparr>uncaught := Some ValueError\<rparr>
                    else request_loop cfg file_headers c rq (attempt + 1)
                           (sent\<lparr>trace := trace sent @ [Sleep (RETRY_DELAY cfg)]\<rparr>)))
      else st)"
  by pat_completeness auto
termination
  by (relation "measure (\<lambda>(cfg, file_headers, c, rq, attempt, st). nat (MAX_RETRIES cfg + 1 - attempt))")
     auto

text \<open>
  The values of a suite file that every case of the file uses. \<open>rstrip\<close> and \<open>upper\<close>
  are called on what \<open>data.get\<close> returns, so a \<open>null\<close> for \<open>base_url\<close> or for
  \<open>method\<close> is an \<open>AttributeError\<close>.
\<close>

record file_ctx =
  fc_stem :: string
  fc_base_url :: string
  fc_default_method :: string
  fc_file_headers :: "string dict"
  fc_tokens_dict :: "string dict"

definition file_context :: "config \<Rightarrow> string \<Rightarrow> suite \<Rightarrow> raised + file_ctx" where
  "file_context cfg name data =
     (case entry_get (sf_base_url data) (BASE_URL cfg) of
        None \<Rightarrow> Inl AttributeError
      | Some base_url \<Rightarrow>
          (case entry_get (sf_method data) ''GET'' of
             None \<Rightarrow> Inl AttributeError
           | Some default_method \<Rightarrow>
               Inr \<lparr>fc_stem = name,
                    fc_base_url = rstrip_char (CHR ''/'') base_url,
                    fc_default_method = upper default_method,
                    fc_file_headers = or_empty (sf_headers data),
                    fc_tokens_dict = or_empty (sf_tokens data)\<rparr>))"

text \<open>
  The body of the loop over the cases of a file; \<open>idx\<close> counts from 1. The method is
  upper-cased before the case is counted, so a \<open>null\<close> method leaves the run with the
  counters untouched.
\<close>

definition run_case :: "config \<Rightarrow> file_ctx \<Rightarrow> nat \<Rightarrow> test_case \<Rightarrow> run_state \<Rightarrow> run_state" where
  "run_case cfg fc idx c st =
     (let test_id = entry_get (tc_test_id c) (fc_stem fc @ ''_'' @ pad3 idx);
          desc = entry_get (tc_description c) ''-''
      in case entry_get (tc_method c) (fc_default_method fc) of
           None \<Rightarrow> st\<lparr>uncaught := Some AttributeError\<rparr>
         | Some given_method \<Rightarrow>
        (let method = upper given_method;
             endpoint = or_str (tc_endpoint c) (tc_api_endpoint c);
             counted = st\<lparr>total := total st + 1\<rparr>
         in if method \<noteq> ''GET''
            then counted\<lparr>skipped := skipped counted + 1,
                   results := results counted @
                     [\<lparr>r_id = test_id, r_desc = desc, r_status_code = Dash, r_result = SKIPPED,
                       r_details = Text (''Skipped non-GET method ('' @ method @ '')''),
                       r_api_name = method @ '' '' @ get_or endpoint ''None'',
                       r_method = method, r_endpoint = endpoint\<rparr>]\<rparr>
            else if get_or endpoint [] = []
            then counted\<lparr>skipped := skipped counted + 1,
                   results := results counted @
                     [\<lparr>r_id = test_id, r_desc = desc, r_status_code = Dash, r_result = SKIPPED,
                       r_details = Text ''Missing endpoint'',
                       r_api_name = ''Unknown'', r_method = [], r_endpoint = Some []\<rparr>]\<rparr>
            else (let final_endpoint = substitute_path_params (or_empty (tc_path_params c))
                                         (get_or endpoint []);
                      rq = \<lparr>rq_test_id = test_id, rq_desc = desc, rq_method = method,
                            rq_endpoint = final_endpoint,
                            rq_url = fc_base_url fc @ final_endpoint,
                            rq_headers = request_headers cfg (fc_file_headers fc)
                                           (fc_tokens_dict fc) c,
                            rq_params = or_empty (tc_query_params c)\<rparr>
                  in request_loop cfg (fc_file_headers fc) c rq 0 counted)))"

text \<open>The loop over the cases: an exception that has left a case ends it.\<close>

fun run_cases :: "config \<Rightarrow> file_ctx \<Rightarrow> nat \<Rightarrow> test_case list \<Rightarrow> run_state \<Rightarrow> run_state" where
  "run_cases cfg fc idx [] st = st"
| "run_cases cfg fc idx (c # cs) st =
     (let st' = run_case cfg fc idx c st
      in if uncaught st' = None then run_cases cfg fc (idx + 1) cs st' else st')"

text \<open>
  The body of the loop over the files: a file that does not load is passed over; the file
  values are read outside the \<open>try\<close>, so their exception leaves the run.
\<close>

definition run_file :: "config \<Rightarrow> json_file \<Rightarrow> run_state \<Rightarrow> run_state" where
  "run_file cfg f st =
     (case content f of
        None \<Rightarrow> st
      | Some data \<Rightarrow>
          (case file_context cfg (stem f) data of
             Inl e \<Rightarrow> st\<lparr>uncaught := Some e\<rparr>
           | Inr fc \<Rightarrow>
               run_cases cfg fc 1 (case sf_test_cases data of None \<Rightarrow> [] | Some cs \<Rightarrow> cs) st))"

fun run_files :: "config \<Rightarrow> json_file list \<Rightarrow> run_state \<Rightarrow> run_state" where
  "run_files cfg [] st = st"
| "run_files cfg (f # fs) st =
     (let st' = run_file cfg f st
      in if uncaught st' = None then run_files cfg fs st' else st')"

text \<open>
  \<open>run_all_tests\<close>: the globals when the function returns (\<open>uncaught\<close> is \<open>None\<close>)
  or when an exception leaves it, and the three performance figures it returns.
\<close>

definition run_all_tests :: "config \<Rightarrow> json_file list \<Rightarrow> run_state \<Rightarrow> run_state" where
  "run_all_tests cfg files st = run_files cfg files st"

definition perf_figures :: "nat list \<Rightarrow> nat \<times> nat \<times> nat" where
  "perf_figures stats =
     (if stats = [] then (0, 0, 0)
      else (sum_list stats div length stats, Max (set stats), Min (set stats)))"

subsection \<open>Grouping of the report\<close>

text \<open>
  The substitution
  \<open>re.sub(r"/[0-9a-fA-F-]{8,}|/\d+|/invalid-[\w-]+|/\{.*?\}", "", endpoint)\<close>. Every
  alternative starts at a slash; \<open>volatile_len\<close> gives the number of characters that the
  first alternative to match takes after the slash.
\<close>

definition is_hexdash :: "char \<Rightarrow> bool" where
  "is_hexdash c =
     (is_digit c \<or> c \<in> set ''abcdefABCDEF'' \<or> c = CHR ''-'')"

definition volatile_len :: "string \<Rightarrow> nat option" where
  "volatile_len cs =
     (let h = length (takeWhile is_hexdash cs);
          d = length (takeWhile is_digit cs);
          w = length (takeWhile (\<lambda>c. is_word c \<or> c = CHR ''-'') (drop 8 cs));
          b = takeWhile (\<lambda>c. c \<noteq> CHR ''}'' \<and> c \<noteq> CHR 0x0A) (drop 1 cs)
      in if 8 \<le> h then Some h
         else if 1 \<le> d then Some d
         else if prefix ''invalid-'' cs \<and> 1 \<le> w then Some (8 + w)
         else if prefix ''{'' cs \<and> prefix ''}'' (drop (1 + length b) cs) then Some (length b + 2)
         else None)"

function strip_volatile :: "string \<Rightarrow> string" where
  "strip_volatile s =
     (case s of
        [] \<Rightarrow> []
      | c # cs \<Rightarrow>
          (if c = CHR ''/''
           then (case volatile_len cs of
                   Some n \<Rightarrow> strip_volatile (drop n cs)
                 | None \<Rightarrow> c # strip_volatile cs)
           else c # strip_volatile cs))"
  by pat_completeness auto
termination
  by (relation "measure length") auto

text \<open>The key under which \<open>generate_html\<close> files a result.\<close>

definition group_key :: "result \<Rightarrow> string" where
  "group_key r =
     (let named = strip (r_method r @ '' '' @ get_or (r_endpoint r) ''None'');
          endpoint = (if named \<noteq> [] then named else r_api_name r);
          endpoint = takeWhile (\<lambda>c. c \<noteq> CHR ''?'') endpoint;
          base_endpoint = rstrip_char (CHR ''/'') (strip_volatile endpoint)
      in if base_endpoint \<noteq> [] then base_endpoint else ''/'')"



section \<open>The assertion-based runner (new.py)\<close>

subsection \<open>More Python on JSON values\<close>

text \<open>\<open>a == b\<close>: \<open>True\<close> and \<open>False\<close> equal 1 and 0, and dictionaries compare without order.\<close>

fun py_eq :: "json \<Rightarrow> json \<Rightarrow> bool" where
  "py_eq JNull b = (b = JNull)"
| "py_eq (JBool x) b =
     (case b of JBool y \<Rightarrow> x = y | JInt j \<Rightarrow> (if x then 1 else 0) = j | _ \<Rightarrow> False)"
| "py_eq (JInt i) b =
     (case b of JBool y \<Rightarrow> i = (if y then 1 else 0) | JInt j \<Rightarrow> i = j | _ \<Rightarrow> False)"
| "py_eq (JStr s) b = (b = JStr s)"
| "py_eq (JList xs) b = (case b of JList ys \<Rightarrow> list_all2 py_eq xs ys | _ \<Rightarrow> False)"
| "py_eq (JObj kvs) b =
     (case b of
        JObj kvs' \<Rightarrow>
          length kvs = length kvs' \<and>
          list_all (\<lambda>kv. case map_of kvs' (fst kv) of
                           Some v' \<Rightarrow> py_eq (snd kv) v'
                         | None \<Rightarrow> False) kvs
      | _ \<Rightarrow> False)"

text \<open>\<open>for x in v\<close>: the elements of a list, the keys of a dictionary, the characters of a string.\<close>

definition py_iter :: "json \<Rightarrow> raised + json list" where
  "py_iter v =
     (case v of
        JList xs \<Rightarrow> Inr xs
      | JObj kvs \<Rightarrow> Inr (map (\<lambda>kv. JStr (fst kv)) kvs)
      | JStr s \<Rightarrow> Inr (map (\<lambda>c. JStr [c]) s)
      | _ \<Rightarrow> Inl TypeError)"

text \<open>\<open>x in v\<close>: a key of a dictionary, an element of a list, a part of a string.\<close>

definition py_contains :: "json \<Rightarrow> json \<Rightarrow> raised + bool" where
  "py_contains x v =
     (case v of
        JObj kvs \<Rightarrow>
          (case x of
             JList _ \<Rightarrow> Inl TypeError
           | JObj _ \<Rightarrow> Inl TypeError
           | JStr k \<Rightarrow> Inr (k \<in> set (map fst kvs))
           | _ \<Rightarrow> Inr False)
      | JList xs \<Rightarrow> Inr (list_ex (py_eq x) xs)
      | JStr s \<Rightarrow> (case x of JStr sub \<Rightarrow> Inr (py_in sub s) | _ \<Rightarrow> Inl TypeError)
      | _ \<Rightarrow> Inl TypeError)"

definition type_name :: "json \<Rightarrow> string" where
  "type_name v =
     (case v of
        JNull \<Rightarrow> ''NoneType'' | JBool _ \<Rightarrow> ''bool'' | JInt _ \<Rightarrow> ''int''
      | JStr _ \<Rightarrow> ''str'' | JList _ \<Rightarrow> ''list'' | JObj _ \<Rightarrow> ''dict'')"

definition is_str :: "json \<Rightarrow> bool" where
  "is_str v = (case v of JStr _ \<Rightarrow> True | _ \<Rightarrow> False)"

definition is_bool :: "json \<Rightarrow> bool" where
  "is_bool v = (case v of JBool _ \<Rightarrow> True | _ \<Rightarrow> False)"

text \<open>\<open>json.dumps(v)\<close> with its defaults: separators \<open>", "\<close> and \<open>": "\<close>, ASCII output.\<close>

definition dumps_char :: "char \<Rightarrow> string" where
  "dumps_char c =
     (if c = CHR 0x22 then [CHR 0x5C, CHR 0x22]
      else if c = CHR 0x5C then [CHR 0x5C, CHR 0x5C]
      else if c = CHR 0x0A then [CHR 0x5C, CHR ''n'']
      else if c = CHR 0x0D then [CHR 0x5C, CHR ''r'']
      else if c = CHR 0x09 then [CHR 0x5C, CHR ''t'']
      else if c = CHR 0x08 then [CHR 0x5C, CHR ''b'']
      else if c = CHR 0x0C then [CHR 0x5C, CHR ''f'']
      else if (of_char c :: nat) < 32 \<or> 126 < (of_char c :: nat)
        then [CHR 0x5C, CHR ''u'', CHR ''0'', CHR ''0'', hex_digit ((of_char c :: nat) div 16),
              hex_digit ((of_char c :: nat) mod 16)]
      else [c])"

definition dumps_str :: "string \<Rightarrow> string" where
  "dumps_str s = [CHR 0x22] @ concat (map dumps_char s) @ [CHR 0x22]"

fun dumps :: "json \<Rightarrow> string" where
  "dumps JNull = ''null''"
| "dumps (JBool b) = (if b then ''true'' else ''false'')"
| "dumps (JInt i) = str_int i"
| "dumps (JStr s) = dumps_str s"
| "dumps (JList xs) = ''['' @ join '', '' (map dumps xs) @ '']''"
| "dumps (JObj kvs) =
     ''{'' @ join '', '' (map (\<lambda>kv. dumps_str (fst kv) @ '': '' @ dumps (snd kv)) kvs) @ ''}''"

subsection \<open>Redaction\<close>

definition nw_redact_headers :: "string dict \<Rightarrow> string dict" where
  "nw_redact_headers headers =
     fold (\<lambda>(k, v) redacted.
             if lower k \<in> set [''authorization'', ''token'', ''x-api-key'', ''x-access-token'']
             then dict_set k redaction_marker redacted
             else dict_set k v redacted)
          headers []"

subsection \<open>Response validation\<close>

text \<open>
  The surroundings of the assertion-based runner: \<open>schema_ok instance schema\<close> is whether
  \<open>jsonschema.validate\<close> accepts the instance, and \<open>nw_http\<close> is the outcome of the n-th
  call of \<open>requests.request\<close>, counted from 0.
\<close>

record nw_env =
  schema_ok :: "json \<Rightarrow> json \<Rightarrow> bool"
  nw_http :: "nat \<Rightarrow> outcome"

definition validate_schema :: "nw_env \<Rightarrow> string option \<Rightarrow> json \<Rightarrow> json \<Rightarrow> raised + unit" where
  "validate_schema env test_id resp_json schema =
     (if schema_ok env resp_json schema then Inr () else Inl (SchemaValidationFailed test_id))"

text \<open>The loop over \<open>mandatory_fields\<close>, with the errors gathered so far.\<close>

fun mandatory_loop :: "json \<Rightarrow> string list \<Rightarrow> json list \<Rightarrow> raised + string list" where
  "mandatory_loop data_dict temp_errors [] = Inr temp_errors"
| "mandatory_loop data_dict temp_errors (field # others) =
     (case py_contains field data_dict of
        Inl e \<Rightarrow> Inl e
      | Inr present \<Rightarrow>
          mandatory_loop data_dict
            (if present then temp_errors
             else temp_errors @ [''Missing mandatory field: '' @ str field])
            others)"

definition field_type_errors :: "string \<Rightarrow> json \<Rightarrow> json \<Rightarrow> string list" where
  "field_type_errors k v_type val =
     (if v_type = JStr ''string'' \<and> val \<noteq> JNull \<and> \<not> is_str val
      then [''Field '' @ [CHR 0x27] @ k @ [CHR 0x27] @ '' expected string, got '' @ type_name val]
      else if v_type = JStr ''boolean'' \<and> \<not> is_bool val
      then [''Field '' @ [CHR 0x27] @ k @ [CHR 0x27] @ '' expected boolean, got '' @ type_name val]
      else if v_type = JStr ''null|string'' \<and> val \<noteq> JNull \<and> \<not> is_str val
      then [''Field '' @ [CHR 0x27] @ k @ [CHR 0x27] @ '' expected null|string, got '' @ type_name val]
      else [])"

text \<open>The loop over \<open>field_types.items()\<close>; \<open>data_dict.get\<close> needs a dictionary.\<close>

fun field_types_loop :: "json \<Rightarrow> string list \<Rightarrow> (string \<times> json) list \<Rightarrow> raised + string list" where
  "field_types_loop data_dict temp_errors [] = Inr temp_errors"
| "field_types_loop data_dict temp_errors ((k, v_type) # rest) =
     (case data_dict of
        JObj d \<Rightarrow>
          field_types_loop data_dict
            (temp_errors @ field_type_errors k v_type (get_or (dict_get d k) JNull)) rest
      | _ \<Rightarrow> Inl AttributeError)"

text \<open>
  The branch of \<open>validate_response\<close> for a candidate that is a dictionary: what it raises,
  or its \<open>temp_errors\<close>.
\<close>

definition dict_candidate :: "nw_env \<Rightarrow> string option \<Rightarrow> json \<Rightarrow> json dict \<Rightarrow> raised + string list" where
  "dict_candidate env test_id resp_json expected_response =
     (case resp_json of
        JObj resp \<Rightarrow>
          (let data_dict = get_or (dict_get resp ''data'') (JObj [])
           in case (case dict_get expected_response ''schema'' of
                      Some schema \<Rightarrow> validate_schema env test_id resp_json schema
                    | None \<Rightarrow> Inr ()) of
                Inl e \<Rightarrow> Inl e
              | Inr _ \<Rightarrow>
                  (case py_iter (get_or (dict_get expected_response ''mandatory_fields'') (JList [])) of
                     Inl e \<Rightarrow> Inl e
                   | Inr mandatory_fields \<Rightarrow>
                       (case mandatory_loop data_dict [] mandatory_fields of
                          Inl e \<Rightarrow> Inl e
                        | Inr temp_errors \<Rightarrow>
                            (case get_or (dict_get expected_response ''field_types'') (JObj []) of
                               JObj field_types \<Rightarrow>
                                 field_types_loop data_dict temp_errors field_types
                             | _ \<Rightarrow> Inl AttributeError))))
      | _ \<Rightarrow> Inl AttributeError)"

text \<open>
  The loop over the candidates with \<open>errors\<close> gathered so far. \<open>Inr ()\<close> is the loop left
  by \<open>break\<close> with \<open>matched\<close> set; at the end of the list the final \<open>assert matched\<close> fails.
\<close>

fun candidates_loop :: "nw_env \<Rightarrow> string option \<Rightarrow> json \<Rightarrow> string list \<Rightarrow> json list \<Rightarrow> raised + unit" where
  "candidates_loop env test_id resp_json errors [] = Inl (ResponseValidationFailed test_id errors)"
| "candidates_loop env test_id resp_json errors (expected_response # rest) =
     (case expected_response of
        JObj e \<Rightarrow>
          (case dict_candidate env test_id resp_json e of
             Inl r \<Rightarrow> Inl r
           | Inr temp_errors \<Rightarrow>
               (if temp_errors = [] then Inr ()
                else candidates_loop env test_id resp_json (errors @ temp_errors) rest))
      | JStr s \<Rightarrow>
          (if py_in s (dumps resp_json) then Inr ()
           else candidates_loop env test_id resp_json
                  (errors @ [''Expected message not found: '' @ s]) rest)
      | _ \<Rightarrow> candidates_loop env test_id resp_json errors rest)"

definition validate_response :: "nw_env \<Rightarrow> string option \<Rightarrow> json \<Rightarrow> json \<Rightarrow> raised + unit" where
  "validate_response env test_id resp_json expected_response_options =
     candidates_loop env test_id resp_json []
       (case expected_response_options of JList cs \<Rightarrow> cs | e \<Rightarrow> [e])"

subsection \<open>The test function\<close>

record nw_state =
  nw_total :: nat
  nw_passed :: nat
  nw_failed :: nat
  nw_skipped :: nat
  nw_times :: "(string option \<times> nat \<times> string) list"
  nw_calls :: nat
  nw_trace :: "event list"

definition nw_initial_state :: nw_state where
  "nw_initial_state = \<lparr>nw_total = 0, nw_passed = 0, nw_failed = 0, nw_skipped = 0,
     nw_times = [], nw_calls = 0, nw_trace = []\<rparr>"

text \<open>The headers of the request: the merge and the token handling of \<open>test_api_from_json\<close>.\<close>

definition nw_request_headers :: "suite \<Rightarrow> test_case \<Rightarrow> string dict" where
  "nw_request_headers data c =
     (let headers = dict_set ''Accept'' ''application/json''
                      (dict_merge (or_empty (sf_headers data)) (or_empty (tc_headers c)));
          token_key = entry_get (tc_auth_token c) ''valid'';
          token_value = (case token_key of
                           Some k \<Rightarrow> dict_get (or_empty (sf_tokens data)) k
                         | None \<Rightarrow> None)
      in if get_or token_value [] \<noteq> []
         then dict_set ''Authorization'' (''Bearer '' @ get_or token_value []) headers
         else if token_key = None \<or> token_key = Some ''empty''
         then dict_pop ''Authorization'' headers
         else headers)"

text \<open>
  The method of the request: the case's, else the file's, else POST; \<open>upper\<close> is called
  on it, so a \<open>null\<close> is an \<open>AttributeError\<close>.
\<close>

definition nw_method :: "suite \<Rightarrow> test_case \<Rightarrow> string option" where
  "nw_method data c =
     (case tc_method c of
        Given m \<Rightarrow> Some m
      | Null \<Rightarrow> None
      | Absent \<Rightarrow> entry_get (sf_method data) ''POST'')"

text \<open>
  The body of the loop over the cases: the error that leaves the test function, if any,
  and the state at that moment.
\<close>

definition nw_case :: "nw_env \<Rightarrow> string \<Rightarrow> string \<Rightarrow> suite \<Rightarrow> nat \<Rightarrow> test_case \<Rightarrow> nw_state
    \<Rightarrow> raised option \<times> nw_state" where
  "nw_case env filename base_url data idx c st =
     (let counted = st\<lparr>nw_total := nw_total st + 1\<rparr>;
          test_id = entry_get (tc_test_id c) (filename @ ''_'' @ pad3 idx);
          endpoint = or_str (tc_endpoint c) (tc_api_endpoint c)
      in if get_or endpoint [] = []
         then (Some (SkipTest test_id), counted\<lparr>nw_skipped := nw_skipped counted + 1\<rparr>)
         else
          (case nw_method data c of
             None \<Rightarrow> (Some AttributeError, counted)
           | Some given_method \<Rightarrow>
          (let method = upper given_method;
               headers = nw_request_headers data c;
               body = get_or (or_json (or_json (tc_body c) (tc_request_body c)) (tc_payload c))
                        (JObj []);
               body = (if truthy body then body else JObj []);
               final_endpoint = substitute_path_params (or_empty (tc_path_params c))
                                  (get_or endpoint []);
               url = base_url @ final_endpoint;
               sent = counted\<lparr>nw_calls := nw_calls counted + 1,
                        nw_trace := nw_trace counted @
                          [HttpRequest method url headers
                             (if method \<in> set [''POST'', ''PUT'', ''PATCH''] then Some body else None)]\<rparr>
           in case nw_http env (nw_calls st) of
                RequestException e \<Rightarrow> (Some (TransportError e), sent)
              | Responded response elapsed_ms \<Rightarrow>
                  (let timed = sent\<lparr>nw_times := nw_times sent @ [(test_id, elapsed_ms, url)]\<rparr>;
                       resp_json = get_or (rsp_json response) (JObj []);
                       expected_status = get_or (tc_expected_status c) 0
                   in if expected_status \<noteq> 0 \<and> rsp_status_code response \<noteq> expected_status
                      then (Some (StatusMismatch test_id expected_status (rsp_status_code response)),
                            timed)
                      else (case (case tc_expected_response c of
                                    Some expected_response \<Rightarrow>
                                      (if truthy expected_response
                                       then validate_response env test_id resp_json expected_response
                                       else Inr ())
                                  | None \<Rightarrow> Inr ()) of
                              Inl r \<Rightarrow> (Some r, timed)
                            | Inr _ \<Rightarrow> (None, timed\<lparr>nw_passed := nw_passed timed + 1\<rparr>))))))"

fun nw_cases :: "nw_env \<Rightarrow> string \<Rightarrow> string \<Rightarrow> suite \<Rightarrow> nat \<Rightarrow> test_case list \<Rightarrow> nw_state
    \<Rightarrow> raised option \<times> nw_state" where
  "nw_cases env filename base_url data idx [] st = (None, st)"
| "nw_cases env filename base_url data idx (c # cs) st =
     (case nw_case env filename base_url data idx c st of
        (Some r, st') \<Rightarrow> (Some r, st')
      | (None, st') \<Rightarrow> nw_cases env filename base_url data (idx + 1) cs st')"

text \<open>\<open>test_api_from_json\<close>, the test of one suite file.\<close>

definition test_api_from_json :: "nw_env \<Rightarrow> string \<Rightarrow> suite \<Rightarrow> nw_state \<Rightarrow> raised option \<times> nw_state" where
  "test_api_from_json env filename data st =
     (case entry_get (sf_base_url data) [] of
        None \<Rightarrow> (Some AttributeError, st)
      | Some given_base_url \<Rightarrow>
          (let base_url = rstrip_char (CHR ''/'') given_base_url
           in if base_url = [] then (Some (BaseUrlMissing filename), st)
              else nw_cases env filename base_url data 1
                     (case sf_test_cases data of None \<Rightarrow> [] | Some cs \<Rightarrow> cs) st))"

section \<open>Properties\<close>

subsection \<open>Notions used in the statements\<close>






text \<open>
  The state of the run once a request has been sent, and once the runner has slept after a
  transport exception.
\<close>

definition sent_state :: "request \<Rightarrow> run_state \<Rightarrow> run_state" where
  "sent_state rq st =
     st\<lparr>calls := calls st + 1,
        trace := trace st @ [HttpGet (rq_url rq) (rq_headers rq) (rq_params rq)]\<rparr>"

definition slept_state :: "config \<Rightarrow> request \<Rightarrow> run_state \<Rightarrow> run_state" where
  "slept_state cfg rq st =
     (sent_state rq st)\<lparr>trace := trace (sent_state rq st) @ [Sleep (RETRY_DELAY cfg)]\<rparr>"

text \<open>The request that \<open>run_all_tests\<close> builds for a GET case with an endpoint.\<close>

definition case_request :: "config \<Rightarrow> file_ctx \<Rightarrow> nat \<Rightarrow> test_case \<Rightarrow> request" where
  "case_request cfg fc idx c =
     \<lparr>rq_test_id = entry_get (tc_test_id c) (fc_stem fc @ ''_'' @ pad3 idx),
      rq_desc = entry_get (tc_description c) ''-'',
      rq_method = ''GET'',
      rq_endpoint = substitute_path_params (or_empty (tc_path_params c))
                      (get_or (or_str (tc_endpoint c) (tc_api_endpoint c)) []),
      rq_url = fc_base_url fc @ substitute_path_params (or_empty (tc_path_params c))
                                  (get_or (or_str (tc_endpoint c) (tc_api_endpoint c)) []),
      rq_headers = request_headers cfg (fc_file_headers fc) (fc_tokens_dict fc) c,
      rq_params = or_empty (tc_query_params c)\<rparr>"


text \<open>The elapsed times of those calls, among the given ones, that returned a response.\<close>

definition responded_times :: "config \<Rightarrow> nat list \<Rightarrow> nat list" where
  "responded_times cfg ns =
     concat (map (\<lambda>n. case http_get cfg n of Responded resp t \<Rightarrow> [t] | RequestException e \<Rightarrow> []) ns)"

definition nw_responded_times :: "nw_env \<Rightarrow> nat list \<Rightarrow> nat list" where
  "nw_responded_times env ns =
     concat (map (\<lambda>n. case nw_http env n of Responded resp t \<Rightarrow> [t] | RequestException e \<Rightarrow> []) ns)"

text \<open>The request headers that the details of a result show, if they show any.\<close>

definition shown_headers :: "details \<Rightarrow> string dict option" where
  "shown_headers d = (case d of Exchange x \<Rightarrow> Some (x_headers x) | Text t \<Rightarrow> None)"

text \<open>The errors that the details of a result show.\<close>

definition shown_errors :: "details \<Rightarrow> string list" where
  "shown_errors d = (case d of Exchange x \<Rightarrow> x_errors x | Text t \<Rightarrow> [])"


text \<open>
  One candidate of \<open>validate_response\<close> taken alone: what its branch of the loop raises, or
  the discrepancies it adds. A candidate matches when it is a dictionary or a string and adds
  no discrepancy.
\<close>

definition candidate_result :: "nw_env \<Rightarrow> string option \<Rightarrow> json \<Rightarrow> json \<Rightarrow> raised + string list" where
  "candidate_result env test_id resp_json c =
     (case c of
        JObj e \<Rightarrow> dict_candidate env test_id resp_json e
      | JStr s \<Rightarrow> Inr (if py_in s (dumps resp_json) then []
                       else [''Expected message not found: '' @ s])
      | _ \<Rightarrow> Inr [])"

definition is_candidate :: "json \<Rightarrow> bool" where
  "is_candidate c = (case c of JObj e \<Rightarrow> True | JStr s \<Rightarrow> True | _ \<Rightarrow> False)"

definition candidate_matches :: "nw_env \<Rightarrow> string option \<Rightarrow> json \<Rightarrow> json \<Rightarrow> bool" where
  "candidate_matches env test_id resp_json c =
     (is_candidate c \<and> candidate_result env test_id resp_json c = Inr [])"

definition candidate_raises :: "nw_env \<Rightarrow> string option \<Rightarrow> json \<Rightarrow> json \<Rightarrow> bool" where
  "candidate_raises env test_id resp_json c = isl (candidate_result env test_id resp_json c)"

definition candidate_discrepancies :: "nw_env \<Rightarrow> string option \<Rightarrow> json \<Rightarrow> json \<Rightarrow> string list" where
  "candidate_discrepancies env test_id resp_json c =
     (case candidate_result env test_id resp_json c of Inr es \<Rightarrow> es | Inl r \<Rightarrow> [])"


subsection \<open>Example values\<close>

definition blank_case :: test_case where
  "blank_case = \<lparr>tc_test_id = Absent, tc_description = Absent, tc_type = None,
     tc_method = Absent, tc_endpoint = None, tc_api_endpoint = None, tc_headers = None,
     tc_query_params = None, tc_path_params = None, tc_auth_token = Absent,
     tc_expected_status = None, tc_expected_response = None,
     tc_expected_response_options = None, tc_nested_keys = None,
     tc_expected_content_type = Absent, tc_body = None, tc_request_body = None,
     tc_payload = None\<rparr>"

definition blank_suite :: suite where
  "blank_suite = \<lparr>sf_base_url = Absent, sf_method = Absent, sf_headers = None,
     sf_tokens = None, sf_test_cases = None\<rparr>"

definition ok_response :: response where
  "ok_response = \<lparr>rsp_status_code = 200, rsp_headers = [(''Content-Type'', ''application/json'')],
     rsp_json = Some (JObj [(''status'', JStr ''ok''), (''data'', JObj [(''name'', JStr ''Asha'')])]),
     rsp_text = []\<rparr>"

text \<open>
  A service that never answers, one that answers 200, and one that answers once in two; the
  first with a negative delay, and with a negative bound.
\<close>

definition down_config :: config where
  "down_config = \<lparr>ALLOW_PARTIAL_MESSAGE_MATCH = False, MAX_RETRIES = 2, RETRY_DELAY = 2,
     BASE_URL = ''https://api.x'', ROLE_CREDENTIALS = [],
     login = (\<lambda>u p. None), py_hash = (\<lambda>k. 7), http_get = (\<lambda>n. RequestException ''timeout'')\<rparr>"

definition up_config :: config where
  "up_config = down_config\<lparr>http_get := (\<lambda>n. Responded ok_response 12)\<rparr>"

definition flaky_config :: config where
  "flaky_config = down_config\<lparr>http_get :=
     (\<lambda>n. if even n then RequestException ''timeout'' else Responded ok_response (10 + n))\<rparr>"



definition ping_case :: test_case where
  "ping_case = blank_case\<lparr>tc_endpoint := Some ''/ping'', tc_expected_status := Some 200\<rparr>"

definition ping_suite :: suite where
  "ping_suite = blank_suite\<lparr>sf_base_url := Given ''https://api.x'',
     sf_test_cases := Some [ping_case, blank_case\<lparr>tc_method := Given ''post''\<rparr>, blank_case]\<rparr>"

definition example_files :: "json_file list" where
  "example_files =
     [\<lparr>stem = ''broken'', content = None\<rparr>, \<lparr>stem = ''ping'', content = Some ping_suite\<rparr>]"

definition example_ctx :: file_ctx where
  "example_ctx = \<lparr>fc_stem = ''ping'', fc_base_url = ''https://api.x'',
     fc_default_method = ''GET'', fc_file_headers = [], fc_tokens_dict = []\<rparr>"

text \<open>
  A suite whose default headers carry an API key, and a service that answers with that
  header under another value.
\<close>

definition key_files :: "json_file list" where
  "key_files =
     [\<lparr>stem = ''keyed'', content = Some (blank_suite\<lparr>sf_base_url := Given ''https://api.x'',
         sf_headers := Some [(''X-Api-Key'', ''SECRET'')],
         sf_test_cases := Some [ping_case]\<rparr>)\<rparr>]"

definition key_config :: config where
  "key_config = down_config\<lparr>http_get :=
     (\<lambda>n. Responded (ok_response\<lparr>rsp_headers := [(''x-api-key'', ''other'')]\<rparr>) 12)\<rparr>"

definition failing_env :: nw_env where
  "failing_env = \<lparr>schema_ok = (\<lambda>i s. False),
     nw_http = (\<lambda>n. Responded (ok_response\<lparr>rsp_status_code := 500\<rparr>) 10)\<rparr>"

definition passing_env :: nw_env where
  "passing_env = \<lparr>schema_ok = (\<lambda>i s. True), nw_http = (\<lambda>n. Responded ok_response 10)\<rparr>"

definition exact_example_resp :: json where
  "exact_example_resp =
     JObj [(''status'', JStr ''OK''), (''data'', JList [JObj [(''name'', JStr ''Asha'')]])]"

definition example_headers :: "string dict" where
  "example_headers = [(''Authorization'', ''Bearer abc''), (''X-ID-Token'', ''id-1''),
     (''Accept'', ''application/json'')]"

definition example_request :: request where
  "example_request = \<lparr>rq_test_id = Some ''ping_001'', rq_desc = Some ''-'', rq_method = ''GET'',
     rq_endpoint = ''/ping'', rq_url = ''https://api.x/ping'', rq_headers = example_headers,
     rq_params = []\<rparr>"


definition example_body :: json where
  "example_body = JObj [(''status'', JStr ''ok''), (''data'', JObj [(''name'', JStr ''Asha'')])]"

definition needs_id :: json where
  "needs_id = JObj [(''mandatory_fields'', JList [JStr ''id''])]"

definition farmers_result :: "string \<Rightarrow> result" where
  "farmers_result e = \<lparr>r_id = Some ''farmers'', r_desc = Some ''-'', r_status_code = Code 200,
     r_result = PASS, r_details = Text [], r_api_name = ''GET '' @ e, r_method = ''GET'',
     r_endpoint = Some e\<rparr>"

declare request_loop.simps [simp del]
declare strip_volatile.simps [simp del]

subsection \<open>Dictionaries\<close>


lemma dict_set_fresh: "k \<notin> fst ` set d \<Longrightarrow> dict_set k v d = d @ [(k, v)]"
  by (induction d) auto

lemma fold_dict_set_distinct:
  "distinct (map fst (acc @ h)) \<Longrightarrow>
     fold (\<lambda>(k, v) r. dict_set k (g k v) r) h acc = acc @ map (\<lambda>(k, v). (k, g k v)) h"
proof (induction h arbitrary: acc)
  case Nil
  then show ?case by simp
next
  case (Cons kv h)
  obtain k v where kv: "kv = (k, v)" by (cases kv)
  from Cons.prems kv have fresh: "k \<notin> fst ` set acc" by auto
  from Cons.prems kv have d: "distinct (map fst ((acc @ [(k, g k v)]) @ h))" by auto
  show ?case
    using Cons.IH [OF d] by (simp add: kv dict_set_fresh [OF fresh])
qed

subsection \<open>Exact and partial matching\<close>

lemma py_in_refl: "py_in s s"
  by (cases s) simp_all

lemma top_level_exact_partial:
  "top_level_errors False r e k = [] \<Longrightarrow> top_level_errors True r e k = []"
  by (auto simp: top_level_errors_def Let_def py_in_refl split: option.splits if_splits)

lemma nested_exact_partial:
  "nested_key_errors False r kv = [] \<Longrightarrow> nested_key_errors True r kv = []"
  by (auto simp: nested_key_errors_def Let_def py_in_refl split: if_splits)

lemma spec_example_status_mismatch:
  "validate_response_simple False (JObj [(''status'', JStr ''ok'')])
     (JObj [(''status'', JStr ''fail'')]) None [] None
   = (False, [''Expected '' @ [CHR 0x27] @ ''status'' @ [CHR 0x27] @ '': fail, got: ok''])"
  by code_simp

text \<open>
  C4. Whatever the response document, the expectation, the query content, the test type and
  the nested-key mapping: if \<open>validate_response_simple\<close> succeeds with the partial-match
  toggle off (exact comparison after trimming), it succeeds on the same inputs with the
  toggle on (case-insensitive containment). The converse fails for some input: the expectation
  \<open>status = ok\<close> against the body \<open>status = OK\<close> passes with the toggle on only.
\<close>

theorem exact_implies_partial:
  "(fst (validate_response_simple False resp_json expected_response query_content test_type nested_keys)
     \<longrightarrow> fst (validate_response_simple True resp_json expected_response query_content test_type nested_keys))
   \<and> (\<exists>r e q t n. fst (validate_response_simple True r e q t n)
         \<and> \<not> fst (validate_response_simple False r e q t n))"
proof
  show "fst (validate_response_simple False resp_json expected_response query_content test_type nested_keys)
     \<longrightarrow> fst (validate_response_simple True resp_json expected_response query_content test_type nested_keys)"
    by (auto simp: validate_response_simple_def Let_def top_level_exact_partial nested_exact_partial
             split: json.splits)
next
  have "fst (validate_response_simple True (JObj [(''status'', JStr ''OK'')])
              (JObj [(''status'', JStr ''ok'')]) None [] None)
      \<and> \<not> fst (validate_response_simple False (JObj [(''status'', JStr ''OK'')])
                  (JObj [(''status'', JStr ''ok'')]) None [] None)"
    by code_simp
  then show "\<exists>r e q t n. fst (validate_response_simple True r e q t n)
         \<and> \<not> fst (validate_response_simple False r e q t n)"
    by blast
qed

theorem exact_implies_partial_witness:
  "fst (validate_response_simple False exact_example_resp (JObj [(''status'', JStr '' OK '')])
         None [] (Some [(''data.0.name'', JStr ''Asha'')]))
   \<and> fst (validate_response_simple True exact_example_resp (JObj [(''status'', JStr '' OK '')])
         None [] (Some [(''data.0.name'', JStr ''Asha'')]))"
proof -
  have h: "fst (validate_response_simple False exact_example_resp
                  (JObj [(''status'', JStr '' OK '')]) None []
                  (Some [(''data.0.name'', JStr ''Asha'')]))"
    by code_simp
  with exact_implies_partial [of exact_example_resp "JObj [(''status'', JStr '' OK '')]" None "[]"
         "Some [(''data.0.name'', JStr ''Asha'')]"]
  show ?thesis by blast
qed

subsection \<open>Redaction of headers\<close>

lemma redact_headers_map:
  assumes "distinct (map fst headers)"
  shows "redact_headers headers =
     map (\<lambda>(k, v). (k, if k \<noteq> [] \<and> lower k \<in> set sensitive_names then redaction_marker else v))
       headers"
proof -
  have "redact_headers headers =
     fold (\<lambda>(k, v) r. dict_set k (if k \<noteq> [] \<and> lower k \<in> set sensitive_names
                                  then redaction_marker else v) r) headers []"
    unfolding redact_headers_def
    by (rule arg_cong [where f = "\<lambda>f. fold f headers []"]) (auto simp: fun_eq_iff)
  also have "\<dots> = [] @ map (\<lambda>(k, v). (k, if k \<noteq> [] \<and> lower k \<in> set sensitive_names
                                           then redaction_marker else v)) headers"
    using assms
    by (intro fold_dict_set_distinct [where g = "\<lambda>k v. if k \<noteq> [] \<and> lower k \<in> set sensitive_names
                                                     then redaction_marker else v"]) simp
  finally show ?thesis by simp
qed

lemma nw_redact_headers_map:
  assumes "distinct (map fst headers)"
  shows "nw_redact_headers headers =
     map (\<lambda>(k, v). (k, if lower k \<in> set [''authorization'', ''token'', ''x-api-key'', ''x-access-token'']
                        then redaction_marker else v)) headers"
proof -
  have "nw_redact_headers headers =
     fold (\<lambda>(k, v) r. dict_set k
             (if lower k \<in> set [''authorization'', ''token'', ''x-api-key'', ''x-access-token'']
              then redaction_marker else v) r) headers []"
    unfolding nw_redact_headers_def
    by (rule arg_cong [where f = "\<lambda>f. fold f headers []"]) (auto simp: fun_eq_iff)
  also have "\<dots> = [] @ map (\<lambda>(k, v). (k,
             if lower k \<in> set [''authorization'', ''token'', ''x-api-key'', ''x-access-token'']
             then redaction_marker else v)) headers"
    using assms
    by (intro fold_dict_set_distinct [where g = "\<lambda>k v.
             if lower k \<in> set [''authorization'', ''token'', ''x-api-key'', ''x-access-token'']
             then redaction_marker else v"]) simp
  finally show ?thesis by simp
qed

lemma redaction_of_request_headers:
  assumes "distinct (map fst headers)"
  shows "redact_headers headers =
           map (\<lambda>(k, v). (k, if lower k \<in> set sensitive_names then redaction_marker else v)) headers
       \<and> shown_headers (details_html rq resp elapsed_ms errors) = Some (redact_headers (rq_headers rq))"
proof -
  have e: "lower [] \<notin> set sensitive_names" by (simp add: lower_def sensitive_names_def)
  have "(\<lambda>(k, v). (k, if k \<noteq> [] \<and> lower k \<in> set sensitive_names then redaction_marker else v))
      = (\<lambda>(k, v). (k::string, if lower k \<in> set sensitive_names then redaction_marker else v))"
    using e by (auto simp: fun_eq_iff)
  then show ?thesis
    using redact_headers_map [OF assms]
    by (simp add: details_html_def shown_headers_def)
qed

text \<open>
  The copy of the redaction function in the assertion-based runner lists four names, without
  \<open>x-id-token\<close>; nothing calls it there.
\<close>

lemma nw_redact_headers_keeps_id_token:
  "lower ''X-ID-Token'' \<in> set sensitive_names
   \<and> dict_get (nw_redact_headers [(''X-ID-Token'', ''secret'')]) ''X-ID-Token'' = Some ''secret''"
  by code_simp

text \<open>
  C3. The report must never show the value of a header of the sensitive set. The code
  breaks this: beside the redacted headers line, the details of a case carry the list of
  errors, and \<open>validate_headers\<close> writes the expected value of each suite-level header
  into its mismatch message. For a suite whose default headers give \<open>X-Api-Key\<close> the
  value \<open>SECRET\<close> and a response that carries that header with another value, the one
  result of the run shows \<open>X-Api-Key\<close> redacted in its headers and \<open>SECRET\<close> in
  its errors.
\<close>

theorem sensitive_header_value_in_report:
  "map (\<lambda>r. shown_headers (r_details r)) (results (run_all_tests key_config key_files initial_state))
     = [Some [(''X-Api-Key'', redaction_marker), (''Accept'', ''application/json''),
              (''Authorization'', redaction_marker), (''X-ID-Token'', redaction_marker)]]
   \<and> map (\<lambda>r. shown_errors (r_details r)) (results (run_all_tests key_config key_files initial_state))
     = [[''Header '' @ [CHR 0x27] @ ''X-Api-Key'' @ [CHR 0x27] @ '' mismatch: expected ''
          @ [CHR 0x27] @ ''SECRET'' @ [CHR 0x27] @ '', got '' @ [CHR 0x27] @ ''other''
          @ [CHR 0x27]]]
   \<and> uncaught (run_all_tests key_config key_files initial_state) = None"
  by code_simp

subsection \<open>Resolution of the authentication headers\<close>













subsection \<open>The synthesized identifier\<close>

text \<open>
  C9. The synthesized identifier is computed from \<open>hash\<close> of the key, and \<open>hash\<close> of a
  string differs from one interpreter process to the next; under two hash functions the same
  key gives two identifiers.
\<close>

theorem dummy_id_token_varies_with_hash:
  "deterministic_dummy_id_token (\<lambda>k. 1) (Some ''invalid'') = ''dummy-id-1''
   \<and> deterministic_dummy_id_token (\<lambda>k. 2) (Some ''invalid'') = ''dummy-id-2''"
  by code_simp

subsection \<open>The request loop\<close>

lemma request_loop_done: "\<not> attempt \<le> MAX_RETRIES cfg \<Longrightarrow> request_loop cfg fh c rq attempt st = st"
  by (simp add: request_loop.simps)

lemma request_loop_responded:
  "attempt \<le> MAX_RETRIES cfg \<Longrightarrow> http_get cfg (calls st) = Responded resp t \<Longrightarrow>
     request_loop cfg fh c rq attempt st = handle_response cfg fh c rq resp t (sent_state rq st)"
  by (subst request_loop.simps) (simp add: Let_def sent_state_def)

lemma request_loop_exhausted:
  "attempt \<le> MAX_RETRIES cfg \<Longrightarrow> http_get cfg (calls st) = RequestException e \<Longrightarrow>
   attempt + 1 > MAX_RETRIES cfg \<Longrightarrow>
     request_loop cfg fh c rq attempt st = record_exhausted rq e (sent_state rq st)"
  by (subst request_loop.simps) (simp add: Let_def sent_state_def request_loop_done)

lemma request_loop_sleep_raises:
  "attempt \<le> MAX_RETRIES cfg \<Longrightarrow> http_get cfg (calls st) = RequestException e \<Longrightarrow>
   \<not> attempt + 1 > MAX_RETRIES cfg \<Longrightarrow> RETRY_DELAY cfg < 0 \<Longrightarrow>
     request_loop cfg fh c rq attempt st = (sent_state rq st)\<lparr>uncaught := Some ValueError\<rparr>"
  by (subst request_loop.simps) (simp add: Let_def sent_state_def)

lemma request_loop_retry:
  "attempt \<le> MAX_RETRIES cfg \<Longrightarrow> http_get cfg (calls st) = RequestException e \<Longrightarrow>
   \<not> attempt + 1 > MAX_RETRIES cfg \<Longrightarrow> \<not> RETRY_DELAY cfg < 0 \<Longrightarrow>
     request_loop cfg fh c rq attempt st
       = request_loop cfg fh c rq (attempt + 1) (slept_state cfg rq st)"
  by (subst request_loop.simps) (simp add: Let_def sent_state_def slept_state_def)

lemma sent_state_fields:
  "calls (sent_state rq st) = calls st + 1"
  "trace (sent_state rq st) = trace st @ [HttpGet (rq_url rq) (rq_headers rq) (rq_params rq)]"
  "PERF_STATS (sent_state rq st) = PERF_STATS st" "results (sent_state rq st) = results st"
  "total (sent_state rq st) = total st" "passed (sent_state rq st) = passed st"
  "failed (sent_state rq st) = failed st" "skipped (sent_state rq st) = skipped st"
  "uncaught (sent_state rq st) = uncaught st"
  by (simp_all add: sent_state_def)

lemma slept_state_fields:
  "calls (slept_state cfg rq st) = calls st + 1"
  "trace (slept_state cfg rq st)
     = trace st @ [HttpGet (rq_url rq) (rq_headers rq) (rq_params rq), Sleep (RETRY_DELAY cfg)]"
  "PERF_STATS (slept_state cfg rq st) = PERF_STATS st" "results (slept_state cfg rq st) = results st"
  "total (slept_state cfg rq st) = total st" "passed (slept_state cfg rq st) = passed st"
  "failed (slept_state cfg rq st) = failed st" "skipped (slept_state cfg rq st) = skipped st"
  "uncaught (slept_state cfg rq st) = uncaught st"
  by (simp_all add: slept_state_def sent_state_def)

lemma handle_response_fields:
  "calls (handle_response cfg fh c rq resp t st) = calls st"
  "PERF_STATS (handle_response cfg fh c rq resp t st) = PERF_STATS st @ [t]"
  "total (handle_response cfg fh c rq resp t st) = total st"
  "skipped (handle_response cfg fh c rq resp t st) = skipped st"
  by (simp_all add: handle_response_def Let_def split: sum.splits)




lemma record_exhausted_fields:
  "calls (record_exhausted rq e st) = calls st" "trace (record_exhausted rq e st) = trace st"
  "PERF_STATS (record_exhausted rq e st) = PERF_STATS st"
  "total (record_exhausted rq e st) = total st" "passed (record_exhausted rq e st) = passed st"
  "failed (record_exhausted rq e st) = failed st + 1"
  "skipped (record_exhausted rq e st) = skipped st"
  "uncaught (record_exhausted rq e st) = uncaught st"
  "map r_id (results (record_exhausted rq e st)) = map r_id (results st) @ [rq_test_id rq]"
  by (simp_all add: record_exhausted_def)



lemma request_loop_perf:
  "calls st \<le> calls (request_loop cfg fh c rq attempt st)
   \<and> PERF_STATS (request_loop cfg fh c rq attempt st)
       = PERF_STATS st @ responded_times cfg [calls st ..< calls (request_loop cfg fh c rq attempt st)]"
proof (induction cfg fh c rq attempt st rule: request_loop.induct)
  case (1 cfg fh c rq attempt st)
  show ?case
  proof (cases "attempt \<le> MAX_RETRIES cfg")
    case False
    then show ?thesis by (simp add: request_loop_done responded_times_def)
  next
    case le: True
    show ?thesis
    proof (cases "http_get cfg (calls st)")
      case (Responded resp t)
      then show ?thesis
        by (simp add: request_loop_responded [OF le Responded] handle_response_fields
              sent_state_fields responded_times_def)
    next
      case (RequestException e)
      show ?thesis
      proof (cases "attempt + 1 > MAX_RETRIES cfg")
        case True
        with RequestException show ?thesis
          by (simp add: request_loop_exhausted [OF le RequestException True]
                record_exhausted_fields sent_state_fields responded_times_def)
      next
        case False
        show ?thesis
        proof (cases "RETRY_DELAY cfg < 0")
          case True
          with RequestException show ?thesis
            by (simp add: request_loop_sleep_raises [OF le RequestException False True]
                  sent_state_fields responded_times_def)
        next
          case delay: False
          let ?st2 = "slept_state cfg rq st"
          let ?end = "request_loop cfg fh c rq (attempt + 1) ?st2"
          have eq: "request_loop cfg fh c rq attempt st = ?end"
            by (rule request_loop_retry [OF le RequestException False delay])
          from "1.IH"(2) [OF le refl RequestException False delay]
          have ih: "calls ?st2 \<le> calls ?end"
             "PERF_STATS ?end = PERF_STATS ?st2 @ responded_times cfg [calls ?st2 ..< calls ?end]"
            by (simp_all add: slept_state_def sent_state_def)
          from ih(1) have lt: "calls st < calls ?end" by (simp add: slept_state_fields)
          then have "[calls st ..< calls ?end] = calls st # [calls ?st2 ..< calls ?end]"
            by (simp add: upt_conv_Cons slept_state_fields)
          then show ?thesis
            unfolding eq using ih lt RequestException
            by (simp add: responded_times_def slept_state_fields)
        qed
      qed
    qed
  qed
qed



subsection \<open>One case of the role-based runner\<close>

lemma run_case_null_method:
  "entry_get (tc_method c) (fc_default_method fc) = None \<Longrightarrow>
     run_case cfg fc idx c st = st\<lparr>uncaught := Some AttributeError\<rparr>"
  by (simp add: run_case_def Let_def)

lemma run_case_loop:
  "entry_get (tc_method c) (fc_default_method fc) = Some m \<Longrightarrow> upper m = ''GET'' \<Longrightarrow>
   get_or (or_str (tc_endpoint c) (tc_api_endpoint c)) [] \<noteq> [] \<Longrightarrow>
     run_case cfg fc idx c st
       = request_loop cfg (fc_file_headers fc) c (case_request cfg fc idx c) 0
           (st\<lparr>total := total st + 1\<rparr>)"
  by (simp add: run_case_def Let_def case_request_def)




lemma run_case_perf:
  "calls st \<le> calls (run_case cfg fc idx c st)
   \<and> PERF_STATS (run_case cfg fc idx c st)
       = PERF_STATS st @ responded_times cfg [calls st ..< calls (run_case cfg fc idx c st)]"
proof (cases "entry_get (tc_method c) (fc_default_method fc)")
  case None
  then show ?thesis by (simp add: run_case_null_method responded_times_def)
next
  case (Some m)
  let ?endpoint = "or_str (tc_endpoint c) (tc_api_endpoint c)"
  consider (non_get) "upper m \<noteq> ''GET''"
    | (missing) "upper m = ''GET''" "get_or ?endpoint [] = []"
    | (run) "upper m = ''GET''" "get_or ?endpoint [] \<noteq> []"
    by blast
  then show ?thesis
  proof cases
    case non_get
    with Some show ?thesis by (simp add: run_case_def Let_def responded_times_def)
  next
    case missing
    with Some show ?thesis by (simp add: run_case_def Let_def responded_times_def)
  next
    case run
    from request_loop_perf [of "st\<lparr>total := total st + 1\<rparr>" cfg "fc_file_headers fc" c
           "case_request cfg fc idx c" 0]
    show ?thesis
      by (simp add: run_case_loop [OF Some run])
  qed
qed





subsection \<open>The summary\<close>
















lemma spec_example_ping:
  "total (run_all_tests up_config
            [\<lparr>stem = ''ping'', content = Some (ping_suite\<lparr>sf_test_cases := Some [ping_case]\<rparr>)\<rparr>]
            initial_state) = 1
   \<and> passed (run_all_tests up_config
            [\<lparr>stem = ''ping'', content = Some (ping_suite\<lparr>sf_test_cases := Some [ping_case]\<rparr>)\<rparr>]
            initial_state) = 1
   \<and> failed (run_all_tests up_config
            [\<lparr>stem = ''ping'', content = Some (ping_suite\<lparr>sf_test_cases := Some [ping_case]\<rparr>)\<rparr>]
            initial_state) = 0"
  by code_simp




subsection \<open>The performance samples\<close>

lemma upt_split: "i \<le> j \<Longrightarrow> j \<le> k \<Longrightarrow> [i ..< k] = [i ..< j] @ [j ..< k]"
  by (metis le_Suc_ex upt_add_eq_append)

lemma responded_times_append:
  "responded_times cfg (xs @ ys) = responded_times cfg xs @ responded_times cfg ys"
  by (simp add: responded_times_def)

lemma nw_responded_times_append:
  "nw_responded_times env (xs @ ys) = nw_responded_times env xs @ nw_responded_times env ys"
  by (simp add: nw_responded_times_def)

lemma run_cases_perf:
  "calls st \<le> calls (run_cases cfg fc idx cs st)
   \<and> PERF_STATS (run_cases cfg fc idx cs st)
       = PERF_STATS st @ responded_times cfg [calls st ..< calls (run_cases cfg fc idx cs st)]"
proof (induction cs arbitrary: idx st)
  case Nil
  then show ?case by (simp add: responded_times_def)
next
  case (Cons c cs)
  let ?s1 = "run_case cfg fc idx c st"
  let ?s2 = "run_cases cfg fc (idx + 1) cs ?s1"
  from run_case_perf [of st cfg fc idx c]
  have a: "calls st \<le> calls ?s1"
    "PERF_STATS ?s1 = PERF_STATS st @ responded_times cfg [calls st ..< calls ?s1]"
    by simp_all
  show ?case
  proof (cases "uncaught ?s1")
    case (Some e)
    then have "run_cases cfg fc idx (c # cs) st = ?s1" by (simp add: Let_def)
    with a show ?thesis by simp
  next
    case None
    then have unfold: "run_cases cfg fc idx (c # cs) st = ?s2" by (simp add: Let_def)
    from Cons.IH [of ?s1 "idx + 1"]
    have b: "calls ?s1 \<le> calls ?s2"
      "PERF_STATS ?s2 = PERF_STATS ?s1 @ responded_times cfg [calls ?s1 ..< calls ?s2]"
      by simp_all
    from a(1) b(1)
    have "[calls st ..< calls ?s2] = [calls st ..< calls ?s1] @ [calls ?s1 ..< calls ?s2]"
      by (rule upt_split)
    with a b show ?thesis unfolding unfold by (simp add: responded_times_append)
  qed
qed

lemma run_file_perf:
  "calls st \<le> calls (run_file cfg f st)
   \<and> PERF_STATS (run_file cfg f st)
       = PERF_STATS st @ responded_times cfg [calls st ..< calls (run_file cfg f st)]"
proof (cases "content f")
  case None
  then show ?thesis by (simp add: run_file_def responded_times_def)
next
  case (Some data)
  show ?thesis
  proof (cases "file_context cfg (stem f) data")
    case (Inl e)
    with Some show ?thesis by (simp add: run_file_def responded_times_def)
  next
    case (Inr fc)
    with Some show ?thesis by (simp add: run_file_def run_cases_perf)
  qed
qed

lemma run_all_tests_perf:
  "calls st \<le> calls (run_all_tests cfg files st)
   \<and> PERF_STATS (run_all_tests cfg files st)
       = PERF_STATS st @ responded_times cfg [calls st ..< calls (run_all_tests cfg files st)]"
proof (induction files arbitrary: st)
  case Nil
  then show ?case by (simp add: run_all_tests_def responded_times_def)
next
  case (Cons f files)
  let ?s1 = "run_file cfg f st"
  let ?s2 = "run_all_tests cfg files ?s1"
  from run_file_perf [of st cfg f]
  have a: "calls st \<le> calls ?s1"
    "PERF_STATS ?s1 = PERF_STATS st @ responded_times cfg [calls st ..< calls ?s1]"
    by simp_all
  show ?case
  proof (cases "uncaught ?s1")
    case (Some e)
    then have "run_all_tests cfg (f # files) st = ?s1" by (simp add: run_all_tests_def Let_def)
    with a show ?thesis by simp
  next
    case None
    then have unfold: "run_all_tests cfg (f # files) st = ?s2"
      by (simp add: run_all_tests_def Let_def)
    from Cons.IH [of ?s1]
    have b: "calls ?s1 \<le> calls ?s2"
      "PERF_STATS ?s2 = PERF_STATS ?s1 @ responded_times cfg [calls ?s1 ..< calls ?s2]"
      by simp_all
    from a(1) b(1)
    have "[calls st ..< calls ?s2] = [calls st ..< calls ?s1] @ [calls ?s1 ..< calls ?s2]"
      by (rule upt_split)
    with a b show ?thesis unfolding unfold by (simp add: responded_times_append)
  qed
qed

lemma nw_case_times:
  "nw_calls st \<le> nw_calls (snd (nw_case env fn bu data idx c st))
   \<and> map (\<lambda>t. fst (snd t)) (nw_times (snd (nw_case env fn bu data idx c st)))
     = map (\<lambda>t. fst (snd t)) (nw_times st)
       @ nw_responded_times env [nw_calls st ..< nw_calls (snd (nw_case env fn bu data idx c st))]"
  by (auto simp: nw_case_def Let_def nw_responded_times_def
           split: outcome.splits sum.splits option.splits)

lemma nw_cases_times:
  "nw_calls st \<le> nw_calls (snd (nw_cases env fn bu data idx cs st))
   \<and> map (\<lambda>t. fst (snd t)) (nw_times (snd (nw_cases env fn bu data idx cs st)))
     = map (\<lambda>t. fst (snd t)) (nw_times st)
       @ nw_responded_times env [nw_calls st ..< nw_calls (snd (nw_cases env fn bu data idx cs st))]"
proof (induction cs arbitrary: idx st)
  case Nil
  then show ?case by (simp add: nw_responded_times_def)
next
  case (Cons c cs)
  obtain r s1 where one: "nw_case env fn bu data idx c st = (r, s1)"
    by (cases "nw_case env fn bu data idx c st")
  from nw_case_times [of st env fn bu data idx c] one
  have a: "nw_calls st \<le> nw_calls s1"
    "map (\<lambda>t. fst (snd t)) (nw_times s1)
       = map (\<lambda>t. fst (snd t)) (nw_times st) @ nw_responded_times env [nw_calls st ..< nw_calls s1]"
    by simp_all
  show ?case
  proof (cases r)
    case (Some e)
    with one a show ?thesis by simp
  next
    case None
    let ?s2 = "snd (nw_cases env fn bu data (idx + 1) cs s1)"
    from Cons.IH [of s1 "idx + 1"]
    have b: "nw_calls s1 \<le> nw_calls ?s2"
      "map (\<lambda>t. fst (snd t)) (nw_times ?s2)
         = map (\<lambda>t. fst (snd t)) (nw_times s1) @ nw_responded_times env [nw_calls s1 ..< nw_calls ?s2]"
      by simp_all
    from a(1) b(1) have "[nw_calls st ..< nw_calls ?s2]
                       = [nw_calls st ..< nw_calls s1] @ [nw_calls s1 ..< nw_calls ?s2]"
      by (rule upt_split)
    with a b one None show ?thesis by (simp add: nw_responded_times_append)
  qed
qed

lemma test_api_from_json_times:
  "map (\<lambda>t. fst (snd t)) (nw_times (snd (test_api_from_json env fn data st)))
     = map (\<lambda>t. fst (snd t)) (nw_times st)
       @ nw_responded_times env [nw_calls st ..< nw_calls (snd (test_api_from_json env fn data st))]"
proof (cases "entry_get (sf_base_url data) []")
  case None
  then show ?thesis by (simp add: test_api_from_json_def nw_responded_times_def)
next
  case (Some given_base_url)
  then show ?thesis
    using nw_cases_times [of st env fn "rstrip_char (CHR ''/'') given_base_url" data 1]
    by (simp add: test_api_from_json_def Let_def nw_responded_times_def)
qed

text \<open>
  C7, as stated, fails: when every attempt of a case raises, three calls are made with the
  default bound and no sample is appended.
\<close>

theorem failed_attempts_not_timed_counterexample:
  "calls (run_case down_config example_ctx 1 ping_case initial_state) = 3
   \<and> PERF_STATS (run_case down_config example_ctx 1 ping_case initial_state) = []"
  by code_simp

text \<open>
  C7, amended. After a run, the samples added to \<open>PERF_STATS\<close> are, in order, the elapsed
  milliseconds of exactly those calls of the run that returned a response, whatever the
  verdict of the validation; a call that raises a transport exception adds nothing. The same
  holds for the \<open>times\<close> of the assertion-based runner over the test of one file.
\<close>

theorem perf_stats_of_answered_attempts:
  "PERF_STATS (run_all_tests cfg files st)
     = PERF_STATS st @ responded_times cfg [calls st ..< calls (run_all_tests cfg files st)]
   \<and> map (\<lambda>t. fst (snd t)) (nw_times (snd (test_api_from_json env filename data nst)))
     = map (\<lambda>t. fst (snd t)) (nw_times nst)
       @ nw_responded_times env
           [nw_calls nst ..< nw_calls (snd (test_api_from_json env filename data nst))]"
  using run_all_tests_perf [of st cfg files] test_api_from_json_times [of env filename data nst]
  by simp

theorem perf_stats_of_answered_attempts_witness:
  "calls (run_all_tests flaky_config example_files initial_state) = 2
   \<and> PERF_STATS (run_all_tests flaky_config example_files initial_state) = [11]
   \<and> nw_times (snd (test_api_from_json passing_env ''ping'' ping_suite nw_initial_state))
       = [(Some ''ping_001'', 10, ''https://api.x/ping'')]"
proof -
  have c: "calls (run_all_tests flaky_config example_files initial_state) = 2" by code_simp
  have r: "responded_times flaky_config [0 ..< 2] = [11]" by code_simp
  have n: "nw_times (snd (test_api_from_json passing_env ''ping'' ping_suite nw_initial_state))
       = [(Some ''ping_001'', 10, ''https://api.x/ping'')]" by code_simp
  from perf_stats_of_answered_attempts [of flaky_config example_files initial_state
         passing_env "''ping''" ping_suite nw_initial_state] c r n
  show ?thesis by (simp add: initial_state_def)
qed

subsection \<open>One case after another\<close>






subsection \<open>Lists of candidates\<close>

lemma candidates_loop_match:
  "candidate_matches env tid resp m \<Longrightarrow> candidates_loop env tid resp errs (m # post) = Inr ()"
  by (auto simp: candidate_matches_def candidate_result_def is_candidate_def
           split: json.splits if_splits)

lemma candidates_loop_step:
  "\<not> candidate_matches env tid resp c \<Longrightarrow> \<not> candidate_raises env tid resp c \<Longrightarrow>
     candidates_loop env tid resp errs (c # rest)
       = candidates_loop env tid resp (errs @ candidate_discrepancies env tid resp c) rest"
  by (auto simp: candidate_matches_def candidate_raises_def candidate_discrepancies_def
        candidate_result_def is_candidate_def split: json.splits if_splits sum.splits)

lemma candidates_loop_none:
  "\<forall>c \<in> set cs. \<not> candidate_matches env tid resp c \<and> \<not> candidate_raises env tid resp c \<Longrightarrow>
     candidates_loop env tid resp errs cs
       = Inl (ResponseValidationFailed tid
                (errs @ concat (map (candidate_discrepancies env tid resp) cs)))"
proof (induction cs arbitrary: errs)
  case Nil
  then show ?case by simp
next
  case (Cons c cs)
  then show ?case by (simp add: candidates_loop_step del: candidates_loop.simps)
qed

lemma candidates_loop_first_match:
  "\<forall>c \<in> set pre. \<not> candidate_matches env tid resp c \<and> \<not> candidate_raises env tid resp c \<Longrightarrow>
   candidate_matches env tid resp m \<Longrightarrow>
     candidates_loop env tid resp errs (pre @ m # post) = Inr ()"
proof (induction pre arbitrary: errs)
  case Nil
  then show ?case by (simp add: candidates_loop_match del: candidates_loop.simps)
next
  case (Cons c pre)
  then show ?case by (simp add: candidates_loop_step del: candidates_loop.simps)
qed

lemma candidates_loop_iff:
  assumes "\<forall>c \<in> set cs. \<not> candidate_raises env tid resp c"
  shows "candidates_loop env tid resp errs cs = Inr ()
           \<longleftrightarrow> (\<exists>c \<in> set cs. candidate_matches env tid resp c)"
proof (cases "\<exists>c \<in> set cs. candidate_matches env tid resp c")
  case True
  then obtain pre m post where split: "cs = pre @ m # post"
    and m: "candidate_matches env tid resp m"
    and pre: "\<forall>c \<in> set pre. \<not> candidate_matches env tid resp c"
    by (metis split_list_first_prop)
  from assms split pre
  have "\<forall>c \<in> set pre. \<not> candidate_matches env tid resp c \<and> \<not> candidate_raises env tid resp c"
    by simp
  from candidates_loop_first_match [OF this m] split True show ?thesis by simp
next
  case False
  with assms
  have "\<forall>c \<in> set cs. \<not> candidate_matches env tid resp c \<and> \<not> candidate_raises env tid resp c"
    by blast
  from candidates_loop_none [OF this] False show ?thesis by simp
qed

text \<open>
  C6, as stated, fails in the role-based runner: \<open>validate_response_simple\<close> takes an
  expectation that is not a dictionary for the empty one, so a list passes although its only
  candidate, validated alone, does not match.
\<close>

theorem candidate_list_counterexample:
  "fst (validate_response_simple False (JObj [(''status'', JStr ''ok'')])
          (JList [JObj [(''status'', JStr ''fail'')]]) None [] None)
   \<and> \<not> fst (validate_response_simple False (JObj [(''status'', JStr ''ok'')])
          (JObj [(''status'', JStr ''fail'')]) None [] None)"
  by code_simp

text \<open>
  C6, amended. In \<open>validate_response\<close> of the assertion-based runner, for every ordered
  list of candidates none of which raises (a schema that the response does not satisfy, or a
  type error): validation passes exactly when some candidate matches, and when none matches
  the assertion fails with the concatenation, in order, of the discrepancies of every
  candidate. The first candidate that matches ends the loop: after candidates that neither
  match nor raise, a matching candidate makes validation pass whatever follows it, even
  candidates that would raise. In the role-based runner an \<open>expected_response\<close> that is a
  list is validated as the empty expectation.
\<close>

theorem candidate_list_semantics:
  assumes "\<forall>c \<in> set cs. \<not> candidate_raises env test_id resp_json c"
  shows "(validate_response env test_id resp_json (JList cs) = Inr ()
            \<longleftrightarrow> (\<exists>c \<in> set cs. candidate_matches env test_id resp_json c))
       \<and> ((\<forall>c \<in> set cs. \<not> candidate_matches env test_id resp_json c) \<longrightarrow>
            validate_response env test_id resp_json (JList cs)
              = Inl (ResponseValidationFailed test_id
                       (concat (map (candidate_discrepancies env test_id resp_json) cs))))
       \<and> ((\<forall>c \<in> set pre. \<not> candidate_matches env test_id resp_json c
                          \<and> \<not> candidate_raises env test_id resp_json c)
            \<and> candidate_matches env test_id resp_json m \<longrightarrow>
            validate_response env test_id resp_json (JList (pre @ m # post)) = Inr ())
       \<and> validate_response_simple partial resp_json (JList cs) query_content test_type nested_keys
           = validate_response_simple partial resp_json (JObj []) query_content test_type nested_keys"
proof -
  have a: "validate_response env test_id resp_json (JList cs) = Inr ()
            \<longleftrightarrow> (\<exists>c \<in> set cs. candidate_matches env test_id resp_json c)"
    unfolding validate_response_def using candidates_loop_iff [OF assms] by simp
  have b: "(\<forall>c \<in> set cs. \<not> candidate_matches env test_id resp_json c) \<longrightarrow>
            validate_response env test_id resp_json (JList cs)
              = Inl (ResponseValidationFailed test_id
                       (concat (map (candidate_discrepancies env test_id resp_json) cs)))"
  proof
    assume "\<forall>c \<in> set cs. \<not> candidate_matches env test_id resp_json c"
    with assms have "\<forall>c \<in> set cs. \<not> candidate_matches env test_id resp_json c
                       \<and> \<not> candidate_raises env test_id resp_json c"
      by blast
    from candidates_loop_none [OF this, of "[]"]
    show "validate_response env test_id resp_json (JList cs)
              = Inl (ResponseValidationFailed test_id
                       (concat (map (candidate_discrepancies env test_id resp_json) cs)))"
      by (simp add: validate_response_def)
  qed
  have c: "(\<forall>c \<in> set pre. \<not> candidate_matches env test_id resp_json c
                          \<and> \<not> candidate_raises env test_id resp_json c)
            \<and> candidate_matches env test_id resp_json m \<longrightarrow>
            validate_response env test_id resp_json (JList (pre @ m # post)) = Inr ()"
    by (simp add: validate_response_def candidates_loop_first_match)
  have d: "validate_response_simple partial resp_json (JList cs) query_content test_type nested_keys
           = validate_response_simple partial resp_json (JObj []) query_content test_type nested_keys"
    by (cases resp_json) (simp_all add: validate_response_simple_def)
  from a b c d show ?thesis by blast
qed

theorem candidate_list_semantics_witness:
  "\<not> candidate_raises failing_env (Some ''t1'') example_body needs_id
   \<and> \<not> candidate_raises failing_env (Some ''t1'') example_body (JStr ''Asha'')
   \<and> \<not> candidate_raises failing_env (Some ''t1'') example_body (JStr ''absent'')
   \<and> \<not> candidate_matches failing_env (Some ''t1'') example_body needs_id
   \<and> \<not> candidate_matches failing_env (Some ''t1'') example_body (JStr ''absent'')
   \<and> candidate_matches failing_env (Some ''t1'') example_body (JStr ''Asha'')
   \<and> candidate_raises failing_env (Some ''t1'') example_body (JObj [(''schema'', JNull)])
   \<and> validate_response failing_env (Some ''t1'') example_body (JList [needs_id, JStr ''Asha'']) = Inr ()
   \<and> validate_response failing_env (Some ''t1'') example_body
        (JList ([needs_id] @ JStr ''Asha'' # [JObj [(''schema'', JNull)]])) = Inr ()
   \<and> validate_response failing_env (Some ''t1'') example_body (JList [needs_id, JStr ''absent''])
       = Inl (ResponseValidationFailed (Some ''t1'')
                [''Missing mandatory field: id'', ''Expected message not found: absent''])"
proof -
  have h1: "\<forall>c \<in> set [needs_id, JStr ''Asha'']. \<not> candidate_raises failing_env (Some ''t1'') example_body c"
    by code_simp
  have h2: "\<forall>c \<in> set [needs_id]. \<not> candidate_matches failing_env (Some ''t1'') example_body c
                                 \<and> \<not> candidate_raises failing_env (Some ''t1'') example_body c"
    by code_simp
  have h3: "candidate_matches failing_env (Some ''t1'') example_body (JStr ''Asha'')"
    by code_simp
  have h4: "candidate_raises failing_env (Some ''t1'') example_body (JObj [(''schema'', JNull)])"
    by code_simp
  have h5: "\<forall>c \<in> set [needs_id, JStr ''absent'']. \<not> candidate_raises failing_env (Some ''t1'') example_body c"
    by code_simp
  have h6: "\<forall>c \<in> set [needs_id, JStr ''absent'']. \<not> candidate_matches failing_env (Some ''t1'') example_body c"
    by code_simp
  have d: "concat (map (candidate_discrepancies failing_env (Some ''t1'') example_body)
                     [needs_id, JStr ''absent''])
           = [''Missing mandatory field: id'', ''Expected message not found: absent'']"
    by code_simp
  from candidate_list_semantics [OF h1, of "[needs_id]" "JStr ''Asha''"
         "[JObj [(''schema'', JNull)]]"]
  have i1: "validate_response failing_env (Some ''t1'') example_body (JList [needs_id, JStr ''Asha'']) = Inr ()"
    and i2: "validate_response failing_env (Some ''t1'') example_body
        (JList ([needs_id] @ JStr ''Asha'' # [JObj [(''schema'', JNull)]])) = Inr ()"
    using h2 h3 by simp_all
  from candidate_list_semantics [OF h5] h6
  have i3: "validate_response failing_env (Some ''t1'') example_body (JList [needs_id, JStr ''absent''])
       = Inl (ResponseValidationFailed (Some ''t1'')
                (concat (map (candidate_discrepancies failing_env (Some ''t1'') example_body)
                     [needs_id, JStr ''absent''])))"
    by blast
  from h1 h2 h3 h4 h5 h6 i1 i2 i3 show ?thesis by (simp only: d) simp
qed

subsection \<open>The group key of the report\<close>
























lemma group_key_examples:
  "group_key (farmers_result ''/farmers/3f2b8c1e-9d4a-4c6b-8f1e-2a7b9c0d1e2f'') = ''GET /farmers''"
  "group_key (farmers_result ''/farmers/invalid-id'') = ''GET /farmers''"
  "group_key (farmers_result ''/farmers/{farmer_id}'') = ''GET /farmers''"
  "group_key (farmers_result ''/farmers/123/plots/77?page=2'') = ''GET /farmers/plots''"
  by code_simp+



end
